theory Spec2Isabelle
  imports Complex_Main
begin

section \<open>Cell values and the Python operations applied to them\<close>

text \<open>
  The rule engine of \<^verbatim>\<open>etl.py\<close> (function \<^verbatim>\<open>run_part2_etl\<close>) reads four
  data frames and inspects their cells with \<^verbatim>\<open>pd.isna\<close>, \<^verbatim>\<open>int\<close>, \<^verbatim>\<open>float\<close>,
  \<^verbatim>\<open>str\<close> and \<^verbatim>\<open>isinstance(v, float)\<close>. A cell is one of the Python values a frame
  read from SQL holds: \<^verbatim>\<open>None\<close>, an \<^verbatim>\<open>int\<close>, a \<^verbatim>\<open>float\<close> or a \<^verbatim>\<open>str\<close>.

  A float is NaN, an infinity or a finite value. Finite values are kept as the rational
  number they denote: every operation the engine applies to a float (comparison with 0
  and 100, truncation, \<^verbatim>\<open>is_integer\<close>) is exact on doubles. Strings are lists of code
  points below 256.
\<close>

datatype pyfloat = FNan | FPosInf | FNegInf | FFin rat

datatype cell = PNone | PInt int | PFloat pyfloat | PStr string

text \<open>
  What the interpreter and pandas compute on strings and floats is not part of the
  repository; it is a parameter of the model:
  \<^item> \<open>float_of_str s\<close> is \<^verbatim>\<open>float(s)\<close> for a string, \<open>None\<close> when it raises;
  \<^item> \<open>int_of_str s\<close> is \<^verbatim>\<open>int(s)\<close> for a string, \<open>None\<close> when it raises;
  \<^item> \<open>str_of_float q\<close> is \<^verbatim>\<open>str(x)\<close> for the finite float of value \<open>q\<close>;
  \<^item> \<open>repr_of_cell v\<close> is \<^verbatim>\<open>repr\<close> of the scalar that \<^verbatim>\<open>DataFrame.loc\<close> returns for
    the cell \<open>v\<close>.
\<close>

record pyrt =
  float_of_str :: "string \<Rightarrow> pyfloat option"
  int_of_str :: "string \<Rightarrow> int option"
  str_of_float :: "rat \<Rightarrow> string"
  repr_of_cell :: "cell \<Rightarrow> string"

text \<open>\<^verbatim>\<open>pd.isna(v)\<close> on a scalar: \<^verbatim>\<open>None\<close> and NaN are missing, nothing else is.\<close>

fun pd_isna :: "cell \<Rightarrow> bool" where
  "pd_isna PNone = True"
| "pd_isna (PFloat FNan) = True"
| "pd_isna _ = False"

text \<open>
  \<^verbatim>\<open>float(n)\<close> for an integer rounds to the nearest double, ties to even, and raises
  \<^verbatim>\<open>OverflowError\<close> when the rounded value does not fit.
\<close>

fun bit_length :: "nat \<Rightarrow> nat" where
  "bit_length n = (if n = 0 then 0 else Suc (bit_length (n div 2)))"

declare bit_length.simps [simp del]

definition round53 :: "nat \<Rightarrow> nat" where
  "round53 m =
     (if m < 2 ^ 53 then m
      else let e = bit_length m - 53;
               q = m div 2 ^ e;
               r = m mod 2 ^ e;
               h = 2 ^ (e - 1)
           in (if h < r \<or> (r = h \<and> odd q) then q + 1 else q) * 2 ^ e)"

definition float_of_int :: "int \<Rightarrow> pyfloat option" where
  "float_of_int n =
     (let m = round53 (nat \<bar>n\<bar>)
      in if 2 ^ 1024 \<le> m then None
         else Some (FFin (if n < 0 then - of_nat m else of_nat m)))"

text \<open>\<^verbatim>\<open>float(v)\<close>; \<open>None\<close> stands for the exception it raises.\<close>

fun py_float :: "pyrt \<Rightarrow> cell \<Rightarrow> pyfloat option" where
  "py_float L PNone = None"
| "py_float L (PInt n) = float_of_int n"
| "py_float L (PFloat f) = Some f"
| "py_float L (PStr s) = float_of_str L s"

text \<open>
  \<^verbatim>\<open>int(v)\<close>: a finite float is truncated towards zero, NaN and the infinities raise,
  \<^verbatim>\<open>None\<close> raises.
\<close>

definition trunc_rat :: "rat \<Rightarrow> int" where
  "trunc_rat q = (if 0 \<le> q then \<lfloor>q\<rfloor> else \<lceil>q\<rceil>)"

fun py_int :: "pyrt \<Rightarrow> cell \<Rightarrow> int option" where
  "py_int L PNone = None"
| "py_int L (PInt n) = Some n"
| "py_int L (PFloat (FFin q)) = Some (trunc_rat q)"
| "py_int L (PFloat _) = None"
| "py_int L (PStr s) = int_of_str L s"

text \<open>\<^verbatim>\<open>float.is_integer\<close>: the float is finite and has no fractional part.\<close>

fun is_integer :: "pyfloat \<Rightarrow> bool" where
  "is_integer (FFin q) = (of_int \<lfloor>q\<rfloor> = q)"
| "is_integer _ = False"

text \<open>The chained comparison \<^verbatim>\<open>0 <= f <= 100\<close>; every comparison with NaN is false.\<close>

fun in_0_100 :: "pyfloat \<Rightarrow> bool" where
  "in_0_100 (FFin q) = (0 \<le> q \<and> q \<le> 100)"
| "in_0_100 _ = False"

text \<open>\<^verbatim>\<open>str(v)\<close>, which is also what an f-string field \<^verbatim>\<open>{v}\<close> prints.\<close>

fun digits :: "nat \<Rightarrow> string" where
  "digits n =
     (if n < 10 then [char_of (48 + n)]
      else digits (n div 10) @ [char_of (48 + n mod 10)])"

declare digits.simps [simp del]

definition str_of_int :: "int \<Rightarrow> string" where
  "str_of_int n = (if n < 0 then CHR ''-'' # digits (nat (- n)) else digits (nat n))"

fun py_str :: "pyrt \<Rightarrow> cell \<Rightarrow> string" where
  "py_str L PNone = ''None''"
| "py_str L (PInt n) = str_of_int n"
| "py_str L (PFloat FNan) = ''nan''"
| "py_str L (PFloat FPosInf) = ''inf''"
| "py_str L (PFloat FNegInf) = ''-inf''"
| "py_str L (PFloat (FFin q)) = str_of_float L q"
| "py_str L (PStr s) = s"

text \<open>\<^verbatim>\<open>str.strip()\<close> removes the white space at both ends.\<close>

definition py_isspace :: "char \<Rightarrow> bool" where
  "py_isspace c = ((of_char c :: nat) \<in> {9, 10, 11, 12, 13, 28, 29, 30, 31, 32, 133, 160})"

definition strip :: "string \<Rightarrow> string" where
  "strip s = rev (dropWhile py_isspace (rev (dropWhile py_isspace s)))"

text \<open>
  Python's \<^verbatim>\<open>==\<close> on cells: numbers compare by value across \<^verbatim>\<open>int\<close> and \<^verbatim>\<open>float\<close>,
  NaN equals nothing.
\<close>

fun py_eq :: "cell \<Rightarrow> cell \<Rightarrow> bool" where
  "py_eq PNone PNone = True"
| "py_eq (PInt a) (PInt b) = (a = b)"
| "py_eq (PInt a) (PFloat (FFin q)) = (of_int a = q)"
| "py_eq (PFloat (FFin q)) (PInt b) = (q = of_int b)"
| "py_eq (PFloat FNan) (PFloat _) = False"
| "py_eq (PFloat _) (PFloat FNan) = False"
| "py_eq (PFloat f) (PFloat g) = (f = g)"
| "py_eq (PStr s) (PStr t) = (s = t)"
| "py_eq _ _ = False"

section \<open>Data frames\<close>

text \<open>
  A data frame has named columns and rows; every row carries its index label.
  \<^verbatim>\<open>pd.read_sql\<close> labels the rows it loads \<open>0, 1, 2, ...\<close> (a \<^verbatim>\<open>RangeIndex\<close>).
  The rows of a frame are rectangular and its column names distinct, as pandas builds
  them from a query result.
\<close>

record frame =
  columns :: "string list"
  rows :: "(nat \<times> cell list) list"

definition index :: "frame \<Rightarrow> nat list" where
  "index df = map fst (rows df)"

definition read_sql :: "string list \<Rightarrow> cell list list \<Rightarrow> frame" where
  "read_sql cs rs = \<lparr>columns = cs, rows = enumerate 0 rs\<rparr>"

text \<open>\<^verbatim>\<open>df.empty\<close>: one of the two axes has length 0.\<close>

definition df_empty :: "frame \<Rightarrow> bool" where
  "df_empty df = (rows df = [] \<or> columns df = [])"

text \<open>
  Errors are values: \<^verbatim>\<open>df[c]\<close> and \<^verbatim>\<open>df.drop\<close> raise \<^verbatim>\<open>KeyError\<close> for a name or a
  label the frame does not have, \<^verbatim>\<open>pd.read_csv\<close> raises \<^verbatim>\<open>EmptyDataError\<close> for a file
  that has no header line, and an exception ends the run.
\<close>

datatype error = KeyError | EmptyDataError

definition and_then :: "error + 'a \<Rightarrow> ('a \<Rightarrow> error + 'b) \<Rightarrow> error + 'b" where
  "and_then m f = (case m of Inl e \<Rightarrow> Inl e | Inr x \<Rightarrow> f x)"

fun pos :: "'a \<Rightarrow> 'a list \<Rightarrow> nat" where
  "pos c [] = 0"
| "pos c (x # xs) = (if x = c then 0 else Suc (pos c xs))"

text \<open>\<^verbatim>\<open>df[c].items()\<close>: the pairs of label and cell of the column \<open>c\<close>.\<close>

definition items :: "frame \<Rightarrow> string \<Rightarrow> (nat \<times> cell) list" where
  "items df c = map (\<lambda>(r, row). (r, row ! pos c (columns df))) (rows df)"

definition getitem :: "frame \<Rightarrow> string \<Rightarrow> error + (nat \<times> cell) list" where
  "getitem df c = (if c \<in> set (columns df) then Inr (items df c) else Inl KeyError)"

text \<open>
  \<^verbatim>\<open>duplicated(keep=False)\<close> marks every position whose key occurs at another
  position as well; \<open>marked\<close> are the labelled keys at the marked positions, what
  \<^verbatim>\<open>df.index[dup].tolist()\<close> and \<^verbatim>\<open>df.loc[r, c]\<close> give the loops. A series compares
  keys with \<^verbatim>\<open>==\<close> and takes two NaN for equal; a frame with a \<^verbatim>\<open>subset\<close> of several
  columns factorizes each column, where all missing values fall together.
\<close>

definition duplicated :: "('a \<Rightarrow> 'a \<Rightarrow> bool) \<Rightarrow> 'a list \<Rightarrow> bool list" where
  "duplicated eq vs =
     map (\<lambda>i. list_ex (\<lambda>j. j \<noteq> i \<and> eq (vs ! i) (vs ! j)) [0..<length vs]) [0..<length vs]"

definition marked :: "('a \<Rightarrow> 'a \<Rightarrow> bool) \<Rightarrow> (nat \<times> 'a) list \<Rightarrow> (nat \<times> 'a) list" where
  "marked eq its = map fst (filter snd (zip its (duplicated eq (map snd its))))"

definition series_same :: "cell \<Rightarrow> cell \<Rightarrow> bool" where
  "series_same a b = ((a = PFloat FNan \<and> b = PFloat FNan) \<or> py_eq a b)"

definition factor_same :: "cell \<Rightarrow> cell \<Rightarrow> bool" where
  "factor_same a b =
     (if pd_isna a \<or> pd_isna b then pd_isna a \<and> pd_isna b else py_eq a b)"

definition pair_same :: "cell \<times> cell \<Rightarrow> cell \<times> cell \<Rightarrow> bool" where
  "pair_same p q = (factor_same (fst p) (fst q) \<and> factor_same (snd p) (snd q))"

text \<open>
  \<^verbatim>\<open>df.drop(index=labels)\<close> removes the rows with these labels;
  \<^verbatim>\<open>reset_index(drop=True)\<close> relabels the rows \<open>0, 1, 2, ...\<close> in their order.
\<close>

definition drop_index :: "nat list \<Rightarrow> frame \<Rightarrow> error + frame" where
  "drop_index labels df =
     (if list_ex (\<lambda>l. l \<notin> set (index df)) labels then Inl KeyError
      else Inr (df\<lparr>rows := filter (\<lambda>(r, row). r \<notin> set labels) (rows df)\<rparr>))"

definition reset_index :: "frame \<Rightarrow> frame" where
  "reset_index df = df\<lparr>rows := enumerate 0 (map snd (rows df))\<rparr>"

section \<open>Exception records\<close>

record exc =
  row_index :: nat
  column :: string
  issue_type :: string
  details :: string

definition mk_exc :: "nat \<Rightarrow> string \<Rightarrow> string \<Rightarrow> string \<Rightarrow> exc" where
  "mk_exc r c t d = \<lparr>row_index = r, column = c, issue_type = t, details = d\<rparr>"

section \<open>Department\_Information checks\<close>

text \<open>
  \<^verbatim>\<open>miss.to_numpy().nonzero()\<close> lists the missing cells row by row, by position;
  the loop appends one record for each.
\<close>

definition dept_missing_row :: "string list \<Rightarrow> nat \<times> cell list \<Rightarrow> exc list" where
  "dept_missing_row cs pr =
     map (\<lambda>(c, v). mk_exc (fst pr) c ''Missing'' ''null value'')
       (filter (\<lambda>(c, v). pd_isna v) (zip cs (snd pr)))"

definition dept_missing_step :: "string list \<Rightarrow> nat \<times> cell list \<Rightarrow> exc list \<Rightarrow> exc list" where
  "dept_missing_step cs pr ex = ex @ dept_missing_row cs pr"

definition dup_step :: "pyrt \<Rightarrow> string \<Rightarrow> string \<Rightarrow> nat \<times> cell \<Rightarrow> exc list \<Rightarrow> exc list" where
  "dup_step L c t rv ex = ex @ [mk_exc (fst rv) c t (c @ ''='' @ py_str L (snd rv))]"

definition doe_step :: "pyrt \<Rightarrow> nat \<times> cell \<Rightarrow> exc list \<Rightarrow> exc list" where
  "doe_step L rv ex =
     (let r = fst rv; v = snd rv;
          out_of_range = mk_exc r ''DOE'' ''Out-of-Range''
                           (''DOE='' @ py_str L v @ '' (must be >=1900)'');
          invalid = mk_exc r ''DOE'' ''Invalid Type'' (''DOE='' @ py_str L v @ '' (not integer)'')
      in if pd_isna v then ex @ [out_of_range]
         else (case py_int L v of
                 None \<Rightarrow> ex @ [invalid]
               | Some i \<Rightarrow> if i < 1900 then ex @ [out_of_range] else ex))"

definition dept_checks :: "pyrt \<Rightarrow> frame \<Rightarrow> error + exc list" where
  "dept_checks L dept =
     (if df_empty dept then Inr []
      else
        let ex = fold (dept_missing_step (columns dept)) (enumerate 0 (map snd (rows dept))) []
        in and_then
             (if ''Department_ID'' \<in> set (columns dept)
              then and_then (getitem dept ''Department_ID'')
                     (\<lambda>its. Inr (fold (dup_step L ''Department_ID'' ''Duplicate Key'')
                                  (marked series_same its) ex))
              else Inr ex)
          (\<lambda>ex. and_then
             (if ''Department_Name'' \<in> set (columns dept)
              then and_then (getitem dept ''Department_Name'')
                     (\<lambda>its. Inr (fold (dup_step L ''Department_Name'' ''Duplicate Value'')
                                  (marked series_same its) ex))
              else Inr ex)
          (\<lambda>ex.
             if ''DOE'' \<in> set (columns dept)
             then and_then (getitem dept ''DOE'') (\<lambda>its. Inr (fold (doe_step L) its ex))
             else Inr ex)))"

section \<open>Student\_Counceling\_Information checks\<close>

definition stud_missing_step :: "pyrt \<Rightarrow> nat \<times> cell \<Rightarrow> exc list \<Rightarrow> exc list" where
  "stud_missing_step L rv ex =
     (if pd_isna (snd rv) \<or> strip (py_str L (snd rv)) = []
      then ex @ [mk_exc (fst rv) ''Department_Admission'' ''Missing''
                   ''Department_Admission is required'']
      else ex)"

text \<open>\<^verbatim>\<open>set(dept["Department_ID"].dropna().astype(str))\<close>, empty without the column.\<close>

definition dept_ids :: "pyrt \<Rightarrow> frame \<Rightarrow> error + string set" where
  "dept_ids L dept =
     (if ''Department_ID'' \<in> set (columns dept)
      then and_then (getitem dept ''Department_ID'')
             (\<lambda>its. Inr (set (map (py_str L) (filter (\<lambda>v. \<not> pd_isna v) (map snd its)))))
      else Inr {})"

definition stud_fk_step :: "pyrt \<Rightarrow> string set \<Rightarrow> nat \<times> cell \<Rightarrow> exc list \<Rightarrow> exc list" where
  "stud_fk_step L ids rv ex =
     (let s = strip (py_str L (snd rv))
      in if s \<noteq> [] \<and> ids \<noteq> {} \<and> s \<notin> ids
         then ex @ [mk_exc (fst rv) ''Department_Admission'' ''FK Violation''
                      (''Department_Admission='' @ s @
                       '' not in Department_Information.Department_ID'')]
         else ex)"

definition stud_checks :: "pyrt \<Rightarrow> frame \<Rightarrow> frame \<Rightarrow> error + exc list" where
  "stud_checks L dept stud =
     (if \<not> df_empty stud \<and> ''Department_Admission'' \<in> set (columns stud)
      then and_then (getitem stud ''Department_Admission'')
        (\<lambda>its. let ex = fold (stud_missing_step L) its []
               in and_then (dept_ids L dept)
        (\<lambda>ids. and_then (getitem stud ''Department_Admission'')
        (\<lambda>its. Inr (fold (stud_fk_step L ids) its ex))))
      else Inr [])"

section \<open>Student\_Performance\_Data checks\<close>

text \<open>
  The loops over the performance frame update two variables, the exception list
  \<^verbatim>\<open>perf_ex\<close> and the set \<^verbatim>\<open>discard_idx\<close>; the model passes both along.
\<close>

record pstate =
  perf_ex :: "exc list"
  discard_idx :: "nat set"

text \<open>\<^verbatim>\<open>perf.index[perf.isna().any(axis=1)].tolist()\<close>\<close>

definition miss_rows :: "frame \<Rightarrow> nat list" where
  "miss_rows df = map fst (filter (\<lambda>(r, row). list_ex pd_isna row) (rows df))"

definition perf_missing_step :: "nat \<Rightarrow> exc list \<Rightarrow> exc list" where
  "perf_missing_step r ex = ex @ [mk_exc r ''(row)'' ''Missing'' ''Missing values in row'']"

definition marks_step :: "pyrt \<Rightarrow> nat \<times> cell \<Rightarrow> pstate \<Rightarrow> pstate" where
  "marks_step L rv st =
     (let r = fst rv; v = snd rv
      in case py_float L v of
           Some f \<Rightarrow>
             if \<not> in_0_100 f
             then st\<lparr>perf_ex := perf_ex st @
                        [mk_exc r ''Marks'' ''Out-of-Range''
                           (''Marks='' @ py_str L v @ '' not in [0,100]'')],
                     discard_idx := insert r (discard_idx st)\<rparr>
             else st
         | None \<Rightarrow>
             st\<lparr>perf_ex := perf_ex st @
                   [mk_exc r ''Marks'' ''Invalid Type'' (''Marks='' @ py_str L v @ '' not numeric'')],
                discard_idx := insert r (discard_idx st)\<rparr>)"

text \<open>\<^verbatim>\<open>isinstance(v, float) and not float(v).is_integer()\<close>\<close>

fun float_not_integer :: "cell \<Rightarrow> bool" where
  "float_not_integer (PFloat f) = (\<not> is_integer f)"
| "float_not_integer _ = False"

definition effort_step :: "pyrt \<Rightarrow> nat \<times> cell \<Rightarrow> pstate \<Rightarrow> pstate" where
  "effort_step L rv st =
     (let r = fst rv; v = snd rv
      in case py_int L v of
           Some i \<Rightarrow>
             if i < 0 \<or> float_not_integer v
             then st\<lparr>perf_ex := perf_ex st @
                        [mk_exc r ''Effort_Hours'' ''Out-of-Range''
                           (''Effort_Hours='' @ py_str L v @ '' must be integer >= 0'')],
                     discard_idx := insert r (discard_idx st)\<rparr>
             else st
         | None \<Rightarrow>
             st\<lparr>perf_ex := perf_ex st @
                   [mk_exc r ''Effort_Hours'' ''Invalid Type''
                      (''Effort_Hours='' @ py_str L v @ '' not integer'')],
                discard_idx := insert r (discard_idx st)\<rparr>)"

text \<open>
  \<^verbatim>\<open>perf.duplicated(subset=["Student_ID","Paper_ID"], keep=False)\<close> and the loop over
  the marked labels; the record prints the tuple of the two cells.
\<close>

definition pair_items :: "frame \<Rightarrow> (nat \<times> cell \<times> cell) list" where
  "pair_items df =
     map (\<lambda>(r, row). (r, row ! pos ''Student_ID'' (columns df), row ! pos ''Paper_ID'' (columns df)))
       (rows df)"

definition get_pairs :: "frame \<Rightarrow> error + (nat \<times> cell \<times> cell) list" where
  "get_pairs df =
     (if ''Student_ID'' \<in> set (columns df) \<and> ''Paper_ID'' \<in> set (columns df)
      then Inr (pair_items df) else Inl KeyError)"

definition pair_step :: "pyrt \<Rightarrow> nat \<times> cell \<times> cell \<Rightarrow> pstate \<Rightarrow> pstate" where
  "pair_step L rp st =
     st\<lparr>perf_ex := perf_ex st @
           [mk_exc (fst rp) ''Student_ID,Paper_ID'' ''Duplicate Pair''
              (''('' @ repr_of_cell L (fst (snd rp)) @ '', '' @ repr_of_cell L (snd (snd rp)) @
               '')'' @ '' appears more than once'')]\<rparr>"

definition perf_checks :: "pyrt \<Rightarrow> frame \<Rightarrow> error + pstate" where
  "perf_checks L perf =
     (let st = \<lparr>perf_ex = [], discard_idx = {}\<rparr>
      in if df_empty perf then Inr st
         else
           let st = st\<lparr>perf_ex := fold perf_missing_step (miss_rows perf) (perf_ex st)\<rparr>;
               st = st\<lparr>discard_idx := discard_idx st \<union> set (miss_rows perf)\<rparr>
           in and_then
                (if ''Marks'' \<in> set (columns perf)
                 then and_then (getitem perf ''Marks'') (\<lambda>its. Inr (fold (marks_step L) its st))
                 else Inr st)
             (\<lambda>st. and_then
                (if ''Effort_Hours'' \<in> set (columns perf)
                 then and_then (getitem perf ''Effort_Hours'')
                        (\<lambda>its. Inr (fold (effort_step L) its st))
                 else Inr st)
             (\<lambda>st.
                if {''Student_ID'', ''Paper_ID''} \<subseteq> set (columns perf)
                then and_then (get_pairs perf)
                       (\<lambda>ps. Inr (fold (pair_step L) (marked pair_same ps) st))
                else Inr st)))"

section \<open>The run\<close>

text \<open>
  \<^verbatim>\<open>run_part2_etl\<close> loads the four tables, runs the checks and cleans the performance
  frame: \<^verbatim>\<open>perf.drop(index=sorted(discard_idx)).reset_index(drop=True)\<close>. The definition
  \<open>run_part2_etl\<close> below is the function up to there (lines 25 to 147), with the four
  reports and the cleaned frame as its result; \<open>run_part2_etl_to_end\<close> is the function
  to its end, with the summary. Writing to the database is outside the model.
\<close>

type_synonym table = "string list \<times> cell list list"

record outputs =
  dept_report :: "exc list"
  emp_report :: "exc list"
  stud_report :: "exc list"
  perf_report :: "exc list"
  perf_clean :: frame

definition clean :: "nat set \<Rightarrow> frame \<Rightarrow> error + frame" where
  "clean discard perf =
     and_then (drop_index (sorted_list_of_set discard) perf) (\<lambda>d. Inr (reset_index d))"

definition run_part2_etl :: "pyrt \<Rightarrow> table \<Rightarrow> table \<Rightarrow> table \<Rightarrow> table \<Rightarrow> error + outputs" where
  "run_part2_etl L dept_t emp_t stud_t perf_t =
     (let dept = read_sql (fst dept_t) (snd dept_t);
          emp = read_sql (fst emp_t) (snd emp_t);
          stud = read_sql (fst stud_t) (snd stud_t);
          perf = read_sql (fst perf_t) (snd perf_t)
      in and_then (dept_checks L dept)
        (\<lambda>dept_ex. and_then (stud_checks L dept stud)
        (\<lambda>stud_ex. and_then (perf_checks L perf)
        (\<lambda>st. and_then (clean (discard_idx st) perf)
        (\<lambda>cleaned.
           Inr \<lparr>dept_report = dept_ex, emp_report = [], stud_report = stud_ex,
                perf_report = perf_ex st, perf_clean = cleaned\<rparr>)))))"

text \<open>
  The summary (lines 153 to 159) counts the records of each report by reading its file
  back: \<^verbatim>\<open>len(pd.read_csv(path))\<close>. The department, counseling and performance reports
  were written by \<^verbatim>\<open>pd.DataFrame(ex).to_csv(path, index=False)\<close>: a frame made from an
  empty list has no columns, and its file no header line. The employee report was written
  from \<^verbatim>\<open>pd.DataFrame([], columns=[...])\<close> and has the header line.
\<close>

record csv_file =
  csv_header :: "string list"
  csv_rows :: "exc list"

definition exc_columns :: "string list" where
  "exc_columns = [''row_index'', ''column'', ''issue_type'', ''details'']"

definition to_csv_records :: "exc list \<Rightarrow> csv_file" where
  "to_csv_records ex = \<lparr>csv_header = (if ex = [] then [] else exc_columns), csv_rows = ex\<rparr>"

definition to_csv_employee :: csv_file where
  "to_csv_employee = \<lparr>csv_header = exc_columns, csv_rows = []\<rparr>"

definition read_csv_len :: "csv_file \<Rightarrow> error + nat" where
  "read_csv_len f = (if csv_header f = [] then Inl EmptyDataError else Inr (length (csv_rows f)))"

definition summary :: "outputs \<Rightarrow> error + (string \<times> nat) list" where
  "summary out =
     and_then (read_csv_len (to_csv_records (dept_report out)))
       (\<lambda>d. and_then (read_csv_len to_csv_employee)
       (\<lambda>e. and_then (read_csv_len (to_csv_records (stud_report out)))
       (\<lambda>s. and_then (read_csv_len (to_csv_records (perf_report out)))
       (\<lambda>p. Inr [(''Department_Information'', d), (''Employee_Information'', e),
                 (''Student_Counceling_Information'', s), (''Student_Performance_Data'', p)]))))"

definition run_part2_etl_to_end ::
  "pyrt \<Rightarrow> table \<Rightarrow> table \<Rightarrow> table \<Rightarrow> table \<Rightarrow> error + outputs \<times> (string \<times> nat) list" where
  "run_part2_etl_to_end L dept_t emp_t stud_t perf_t =
     and_then (run_part2_etl L dept_t emp_t stud_t perf_t)
       (\<lambda>out. and_then (summary out) (\<lambda>sm. Inr (out, sm)))"

section \<open>Notions the properties are stated with\<close>

text \<open>
  The labels a cleaning keeps, in their order: those of \<open>0, ..., n - 1\<close> outside the
  discard set.
\<close>

definition kept_labels :: "nat set \<Rightarrow> nat \<Rightarrow> nat list" where
  "kept_labels D n = filter (\<lambda>i. i \<notin> D) [0..<n]"

text \<open>
  What the specification asks of a cleaned row, in its words: the marks lie in
  \<open>[0, 100]\<close>, the effort hours are a whole number that is not negative. A cell that
  is a string stands for the number it is read as.
\<close>

fun marks_in_range :: "pyrt \<Rightarrow> cell \<Rightarrow> bool" where
  "marks_in_range L PNone = False"
| "marks_in_range L (PInt n) = (0 \<le> n \<and> n \<le> 100)"
| "marks_in_range L (PFloat FNan) = False"
| "marks_in_range L (PFloat FPosInf) = False"
| "marks_in_range L (PFloat FNegInf) = False"
| "marks_in_range L (PFloat (FFin q)) = (0 \<le> q \<and> q \<le> 100)"
| "marks_in_range L (PStr s) =
     (case float_of_str L s of Some (FFin q) \<Rightarrow> 0 \<le> q \<and> q \<le> 100 | _ \<Rightarrow> False)"

fun effort_whole :: "pyrt \<Rightarrow> cell \<Rightarrow> bool" where
  "effort_whole L PNone = False"
| "effort_whole L (PInt n) = (0 \<le> n)"
| "effort_whole L (PFloat FNan) = False"
| "effort_whole L (PFloat FPosInf) = False"
| "effort_whole L (PFloat FNegInf) = False"
| "effort_whole L (PFloat (FFin q)) = (0 \<le> q \<and> q \<in> \<int>)"
| "effort_whole L (PStr s) = (case int_of_str L s of Some i \<Rightarrow> 0 \<le> i | None \<Rightarrow> False)"

text \<open>
  A runtime for the examples. It reads no string as a number; the examples hold numbers
  as \<^verbatim>\<open>int\<close> and \<^verbatim>\<open>float\<close> cells.
\<close>

definition rt0 :: pyrt where
  "rt0 = \<lparr>float_of_str = (\<lambda>s. None), int_of_str = (\<lambda>s. None),
          str_of_float = (\<lambda>q. ''?''), repr_of_cell = (\<lambda>v. ''?'')\<rparr>"

text \<open>The parts of the performance report and of the discard set, rule by rule.\<close>

definition marks_part :: "pyrt \<Rightarrow> frame \<Rightarrow> pstate" where
  "marks_part L perf =
     (if ''Marks'' \<in> set (columns perf)
      then fold (marks_step L) (items perf ''Marks'') \<lparr>perf_ex = [], discard_idx = {}\<rparr>
      else \<lparr>perf_ex = [], discard_idx = {}\<rparr>)"

definition effort_part :: "pyrt \<Rightarrow> frame \<Rightarrow> pstate" where
  "effort_part L perf =
     (if ''Effort_Hours'' \<in> set (columns perf)
      then fold (effort_step L) (items perf ''Effort_Hours'') \<lparr>perf_ex = [], discard_idx = {}\<rparr>
      else \<lparr>perf_ex = [], discard_idx = {}\<rparr>)"

definition pair_part :: "pyrt \<Rightarrow> frame \<Rightarrow> exc list" where
  "pair_part L perf =
     (if {''Student_ID'', ''Paper_ID''} \<subseteq> set (columns perf)
      then perf_ex (fold (pair_step L) (marked pair_same (pair_items perf))
                      \<lparr>perf_ex = [], discard_idx = {}\<rparr>)
      else [])"

text \<open>A cell fails the marks rule, the effort rule: the rule records it and discards the row.\<close>

definition marks_bad :: "pyrt \<Rightarrow> cell \<Rightarrow> bool" where
  "marks_bad L v = (case py_float L v of None \<Rightarrow> True | Some f \<Rightarrow> \<not> in_0_100 f)"

definition effort_bad :: "pyrt \<Rightarrow> cell \<Rightarrow> bool" where
  "effort_bad L v = (case py_int L v of None \<Rightarrow> True | Some i \<Rightarrow> i < 0 \<or> float_not_integer v)"

text \<open>The reports and the discard set as values of the loaded frames.\<close>

definition dup_part :: "pyrt \<Rightarrow> string \<Rightarrow> string \<Rightarrow> frame \<Rightarrow> exc list" where
  "dup_part L c t df =
     (if c \<in> set (columns df) then fold (dup_step L c t) (marked series_same (items df c)) []
      else [])"

definition doe_part :: "pyrt \<Rightarrow> frame \<Rightarrow> exc list" where
  "doe_part L df =
     (if ''DOE'' \<in> set (columns df) then fold (doe_step L) (items df ''DOE'') [] else [])"

definition dept_report_of :: "pyrt \<Rightarrow> frame \<Rightarrow> exc list" where
  "dept_report_of L dept =
     (if df_empty dept then []
      else fold (dept_missing_step (columns dept)) (enumerate 0 (map snd (rows dept))) []
           @ dup_part L ''Department_ID'' ''Duplicate Key'' dept
           @ dup_part L ''Department_Name'' ''Duplicate Value'' dept
           @ doe_part L dept)"

definition dept_id_set :: "pyrt \<Rightarrow> frame \<Rightarrow> string set" where
  "dept_id_set L dept =
     (if ''Department_ID'' \<in> set (columns dept)
      then set (map (py_str L)
                  (filter (\<lambda>v. \<not> pd_isna v) (map snd (items dept ''Department_ID''))))
      else {})"

definition stud_report_of :: "pyrt \<Rightarrow> frame \<Rightarrow> frame \<Rightarrow> exc list" where
  "stud_report_of L dept stud =
     (if \<not> df_empty stud \<and> ''Department_Admission'' \<in> set (columns stud)
      then fold (stud_missing_step L) (items stud ''Department_Admission'') []
           @ fold (stud_fk_step L (dept_id_set L dept)) (items stud ''Department_Admission'') []
      else [])"

definition perf_state :: "pyrt \<Rightarrow> frame \<Rightarrow> pstate" where
  "perf_state L perf =
     (if df_empty perf then \<lparr>perf_ex = [], discard_idx = {}\<rparr>
      else \<lparr>perf_ex = map (\<lambda>r. mk_exc r ''(row)'' ''Missing'' ''Missing values in row'')
                        (miss_rows perf)
                      @ perf_ex (marks_part L perf) @ perf_ex (effort_part L perf)
                      @ pair_part L perf,
            discard_idx = set (miss_rows perf) \<union> discard_idx (marks_part L perf)
                          \<union> discard_idx (effort_part L perf)\<rparr>)"

text \<open>The key of a performance row: its \<^verbatim>\<open>Student_ID\<close> and \<^verbatim>\<open>Paper_ID\<close> cells.\<close>

definition pair_key :: "string list \<Rightarrow> cell list \<Rightarrow> cell \<times> cell" where
  "pair_key cs row = (row ! pos ''Student_ID'' cs, row ! pos ''Paper_ID'' cs)"

text \<open>An example: two valid performance rows with the same key.\<close>

definition perf_cols :: "string list" where
  "perf_cols = [''Student_ID'', ''Paper_ID'', ''Marks'', ''Effort_Hours'']"

definition two_same_keys :: "cell list list" where
  "two_same_keys = [[PInt 5, PInt 9, PInt 50, PInt 3], [PInt 5, PInt 9, PInt 60, PInt 4]]"

text \<open>An example: the performance row of the specification's Scenario C.\<close>

definition scenario_c :: "cell list list" where
  "scenario_c = [[PInt 5, PInt 9, PStr ''abc'', PInt 3]]"

text \<open>An example: a performance row whose marks are NaN.\<close>

definition nan_marks :: "cell list list" where
  "nan_marks = [[PInt 6, PInt 10, PFloat FNan, PInt 2]]"

text \<open>An example: department rows, the second with no year.\<close>

definition dept_cols :: "string list" where
  "dept_cols = [''Department_ID'', ''Department_Name'', ''DOE'']"

definition dept_null_doe :: "cell list list" where
  "dept_null_doe = [[PInt 1, PStr ''CS'', PInt 2000], [PInt 2, PStr ''EE'', PNone]]"

text \<open>Examples: the counseling row of the specification's Scenario D, and a null admission.\<close>

definition stud_cols :: "string list" where
  "stud_cols = [''Student_ID'', ''Department_Admission'']"

definition scenario_d :: "cell list list" where
  "scenario_d = [[PInt 7, PStr '''']]"

definition null_admission :: "cell list list" where
  "null_admission = [[PInt 9, PNone]]"

definition dept_keys :: table where
  "dept_keys = ([''Department_ID''], [[PStr ''CS''], [PStr ''EE'']])"

text \<open>Examples: tables that have an identifier column only.\<close>

definition dept_id_only :: table where
  "dept_id_only = ([''Department_ID''], [[PInt 1], [PInt 2]])"

definition stud_id_only :: table where
  "stud_id_only = ([''Student_ID''], [[PInt 7]])"

definition perf_id_only :: table where
  "perf_id_only = ([''Student_ID''], [[PInt 5], [PInt 6]])"

text \<open>Examples: a department with an early year, and the same department without the year column.\<close>

definition dept_with_doe :: table where
  "dept_with_doe = ([''Department_ID'', ''DOE''], [[PInt 1, PInt 1800]])"

definition dept_without_doe :: table where
  "dept_without_doe = ([''Department_ID''], [[PInt 1]])"

section \<open>Basic facts\<close>

lemma and_then_Inr [simp]: "and_then (Inr x) f = f x"
  by (simp add: and_then_def)

lemma and_then_Inl [simp]: "and_then (Inl e) f = Inl e"
  by (simp add: and_then_def)

lemma getitem_present [simp]: "c \<in> set (columns df) \<Longrightarrow> getitem df c = Inr (items df c)"
  by (simp add: getitem_def)

lemma fold_append_step:
  assumes "\<And>x ex. step x ex = ex @ f x"
  shows "fold step xs ex = ex @ concat (map f xs)"
  using assms by (induction xs arbitrary: ex) simp_all

lemma fold_pstate_step:
  assumes "\<And>x st. step x st = \<lparr>perf_ex = perf_ex st @ f x, discard_idx = discard_idx st \<union> g x\<rparr>"
  shows "fold step xs st =
           \<lparr>perf_ex = perf_ex st @ concat (map f xs), discard_idx = discard_idx st \<union> (\<Union>x\<in>set xs. g x)\<rparr>"
  using assms by (induction xs arbitrary: st) (simp_all add: Un_assoc)

lemma rows_read_sql [simp]: "rows (read_sql cs rs) = enumerate 0 rs"
  and columns_read_sql [simp]: "columns (read_sql cs rs) = cs"
  by (simp_all add: read_sql_def)

lemma index_read_sql [simp]: "index (read_sql cs rs) = [0..<length rs]"
  by (simp add: index_def)

lemma df_empty_read_sql [simp]: "df_empty (read_sql cs rs) = (rs = [] \<or> cs = [])"
  by (simp add: df_empty_def enumerate_eq_zip)

lemma items_read_sql:
  "items (read_sql cs rs) c = map (\<lambda>i. (i, rs ! i ! pos c cs)) [0..<length rs]"
  by (rule nth_equalityI) (simp_all add: items_def nth_enumerate_eq)

lemma in_items_read_sql:
  "(i, v) \<in> set (items (read_sql cs rs) c) \<longleftrightarrow> i < length rs \<and> v = rs ! i ! pos c cs"
  by (auto simp: items_read_sql)

lemma miss_rows_read_sql:
  "miss_rows (read_sql cs rs) = filter (\<lambda>i. list_ex pd_isna (rs ! i)) [0..<length rs]"
proof -
  have "enumerate 0 rs = map (\<lambda>i. (i, rs ! i)) [0..<length rs]"
    by (rule nth_equalityI) (simp_all add: nth_enumerate_eq)
  then show ?thesis
    by (simp add: miss_rows_def filter_map comp_def)
qed

section \<open>The cleaning step\<close>

lemma length_kept_labels:
  assumes "D \<subseteq> {..<n}"
  shows "length (kept_labels D n) = n - card D"
proof -
  have fin: "finite D" using assms finite_subset by blast
  have "distinct (kept_labels D n)"
    by (simp add: kept_labels_def)
  then have "length (kept_labels D n) = card (set (kept_labels D n))"
    by (rule distinct_card [symmetric])
  also have "set (kept_labels D n) = {..<n} - D"
    by (auto simp: kept_labels_def)
  also have "card ({..<n} - D) = n - card D"
    using assms fin by (simp add: card_Diff_subset)
  finally show ?thesis .
qed

lemma enumerate_conv_map: "enumerate 0 rs = map (\<lambda>i. (i, rs ! i)) [0..<length rs]"
  by (rule nth_equalityI) (simp_all add: nth_enumerate_eq)

lemma drop_index_read_sql:
  assumes "set ls \<subseteq> {..<length rs}"
  shows "drop_index ls (read_sql cs rs) =
           Inr \<lparr>columns = cs, rows = map (\<lambda>i. (i, rs ! i)) (kept_labels (set ls) (length rs))\<rparr>"
proof -
  have "\<not> list_ex (\<lambda>l. l \<notin> set (index (read_sql cs rs))) ls"
    using assms by (auto simp: list_ex_iff)
  moreover have "filter (\<lambda>(r, row). r \<notin> set ls) (enumerate 0 rs) =
                   map (\<lambda>i. (i, rs ! i)) (kept_labels (set ls) (length rs))"
    by (simp add: enumerate_conv_map filter_map comp_def kept_labels_def)
  ultimately show ?thesis
    by (simp add: drop_index_def read_sql_def)
qed

lemma clean_read_sql:
  assumes "D \<subseteq> {..<length rs}"
  shows "clean D (read_sql cs rs) =
           Inr \<lparr>columns = cs, rows = enumerate 0 (map ((!) rs) (kept_labels D (length rs)))\<rparr>"
proof -
  have fin: "finite D" using assms finite_subset by blast
  then have "set (sorted_list_of_set D) = D" by simp
  with assms show ?thesis
    by (simp add: clean_def drop_index_read_sql reset_index_def comp_def)
qed

section \<open>The performance checks, rule by rule\<close>

lemma marks_step_additive:
  "marks_step L rv st =
     \<lparr>perf_ex = perf_ex st @ perf_ex (marks_step L rv \<lparr>perf_ex = [], discard_idx = {}\<rparr>),
      discard_idx = discard_idx st \<union> discard_idx (marks_step L rv \<lparr>perf_ex = [], discard_idx = {}\<rparr>)\<rparr>"
  by (simp add: marks_step_def Let_def split: option.split)

lemma effort_step_additive:
  "effort_step L rv st =
     \<lparr>perf_ex = perf_ex st @ perf_ex (effort_step L rv \<lparr>perf_ex = [], discard_idx = {}\<rparr>),
      discard_idx = discard_idx st \<union> discard_idx (effort_step L rv \<lparr>perf_ex = [], discard_idx = {}\<rparr>)\<rparr>"
  by (simp add: effort_step_def Let_def split: option.split)

lemma pair_step_additive:
  "pair_step L rp st =
     \<lparr>perf_ex = perf_ex st @ perf_ex (pair_step L rp \<lparr>perf_ex = [], discard_idx = {}\<rparr>),
      discard_idx = discard_idx st \<union> {}\<rparr>"
  by (simp add: pair_step_def)

lemmas fold_marks = fold_pstate_step [of "marks_step L" for L, OF marks_step_additive]
lemmas fold_effort = fold_pstate_step [of "effort_step L" for L, OF effort_step_additive]
lemmas fold_pair = fold_pstate_step [of "pair_step L" for L, OF pair_step_additive]

lemma fold_perf_missing:
  "fold perf_missing_step rs ex =
     ex @ map (\<lambda>r. mk_exc r ''(row)'' ''Missing'' ''Missing values in row'') rs"
  by (induction rs arbitrary: ex) (simp_all add: perf_missing_step_def)



lemma perf_checks_parts:
  "perf_checks L perf =
     Inr (if df_empty perf then \<lparr>perf_ex = [], discard_idx = {}\<rparr>
          else \<lparr>perf_ex = map (\<lambda>r. mk_exc r ''(row)'' ''Missing'' ''Missing values in row'')
                            (miss_rows perf)
                          @ perf_ex (marks_part L perf) @ perf_ex (effort_part L perf)
                          @ pair_part L perf,
                discard_idx = set (miss_rows perf) \<union> discard_idx (marks_part L perf)
                              \<union> discard_idx (effort_part L perf)\<rparr>)"
  by (simp add: perf_checks_def Let_def marks_part_def effort_part_def pair_part_def
        get_pairs_def fold_perf_missing fold_marks fold_effort fold_pair Un_assoc)

lemma discard_marks_step:
  "discard_idx (marks_step L rv \<lparr>perf_ex = [], discard_idx = {}\<rparr>) =
     (if marks_bad L (snd rv) then {fst rv} else {})"
  by (simp add: marks_step_def marks_bad_def Let_def split: option.split)

lemma discard_effort_step:
  "discard_idx (effort_step L rv \<lparr>perf_ex = [], discard_idx = {}\<rparr>) =
     (if effort_bad L (snd rv) then {fst rv} else {})"
  by (simp add: effort_step_def effort_bad_def Let_def split: option.split)

lemma discard_marks_part:
  "i \<in> discard_idx (marks_part L (read_sql cs rs)) \<longleftrightarrow>
     ''Marks'' \<in> set cs \<and> i < length rs \<and> marks_bad L (rs ! i ! pos ''Marks'' cs)"
  by (simp add: marks_part_def fold_marks discard_marks_step items_read_sql) force

lemma discard_effort_part:
  "i \<in> discard_idx (effort_part L (read_sql cs rs)) \<longleftrightarrow>
     ''Effort_Hours'' \<in> set cs \<and> i < length rs \<and> effort_bad L (rs ! i ! pos ''Effort_Hours'' cs)"
  by (simp add: effort_part_def fold_effort discard_effort_step items_read_sql) force

lemma in_miss_rows_read_sql:
  "i \<in> set (miss_rows (read_sql cs rs)) \<longleftrightarrow> i < length rs \<and> list_ex pd_isna (rs ! i)"
  by (auto simp: miss_rows_read_sql)

lemma discard_iff:
  assumes "perf_checks L (read_sql cs rs) = Inr st"
  shows "i \<in> discard_idx st \<longleftrightarrow>
           i < length rs \<and> cs \<noteq> [] \<and>
           (list_ex pd_isna (rs ! i)
            \<or> (''Marks'' \<in> set cs \<and> marks_bad L (rs ! i ! pos ''Marks'' cs))
            \<or> (''Effort_Hours'' \<in> set cs \<and> effort_bad L (rs ! i ! pos ''Effort_Hours'' cs)))"
proof (cases "df_empty (read_sql cs rs)")
  case True
  with assms have "discard_idx st = {}"
    by (auto simp: perf_checks_parts)
  with True show ?thesis by auto
next
  case False
  with assms have "discard_idx st = set (miss_rows (read_sql cs rs))
      \<union> discard_idx (marks_part L (read_sql cs rs)) \<union> discard_idx (effort_part L (read_sql cs rs))"
    by (auto simp: perf_checks_parts)
  with False show ?thesis
    by (auto simp: in_miss_rows_read_sql discard_marks_part discard_effort_part)
qed

lemma discard_subset:
  assumes "perf_checks L (read_sql cs rs) = Inr st"
  shows "discard_idx st \<subseteq> {..<length rs}"
  using discard_iff [OF assms] by auto

lemma perf_checks_total: "\<exists>st. perf_checks L perf = Inr st"
  by (simp add: perf_checks_parts)

section \<open>The reports of a run\<close>

lemma dup_step_additive: "dup_step L c t rv ex = ex @ dup_step L c t rv []"
  by (simp add: dup_step_def)

lemma doe_step_additive: "doe_step L rv ex = ex @ doe_step L rv []"
  by (simp add: doe_step_def Let_def split: option.split)

lemma stud_missing_step_additive: "stud_missing_step L rv ex = ex @ stud_missing_step L rv []"
  by (simp add: stud_missing_step_def)

lemma stud_fk_step_additive: "stud_fk_step L ids rv ex = ex @ stud_fk_step L ids rv []"
  by (simp add: stud_fk_step_def Let_def)

lemmas fold_dup = fold_append_step [of "dup_step L c t" for L c t, OF dup_step_additive]
lemmas fold_doe = fold_append_step [of "doe_step L" for L, OF doe_step_additive]
lemmas fold_stud_missing =
  fold_append_step [of "stud_missing_step L" for L, OF stud_missing_step_additive]
lemmas fold_stud_fk =
  fold_append_step [of "stud_fk_step L ids" for L ids, OF stud_fk_step_additive]

lemma dept_checks_eq: "dept_checks L dept = Inr (dept_report_of L dept)"
  by (simp add: dept_checks_def dept_report_of_def dup_part_def doe_part_def Let_def
        fold_dup fold_doe fold_append_step [of "dept_missing_step cs" for cs, OF dept_missing_step_def])

lemma dept_ids_eq: "dept_ids L dept = Inr (dept_id_set L dept)"
  by (simp add: dept_ids_def dept_id_set_def)

lemma stud_checks_eq: "stud_checks L dept stud = Inr (stud_report_of L dept stud)"
  by (simp add: stud_checks_def stud_report_of_def dept_ids_eq Let_def
        fold_stud_fk fold_stud_missing)

lemma perf_checks_eq: "perf_checks L perf = Inr (perf_state L perf)"
  by (simp add: perf_checks_parts perf_state_def)

lemma discard_perf_state_subset: "discard_idx (perf_state L (read_sql cs rs)) \<subseteq> {..<length rs}"
  by (rule discard_subset) (rule perf_checks_eq)

lemma run_part2_etl_eq:
  "run_part2_etl L dept_t emp_t stud_t (cs, rs) =
     Inr \<lparr>dept_report = dept_report_of L (read_sql (fst dept_t) (snd dept_t)),
          emp_report = [],
          stud_report = stud_report_of L (read_sql (fst dept_t) (snd dept_t))
                          (read_sql (fst stud_t) (snd stud_t)),
          perf_report = perf_ex (perf_state L (read_sql cs rs)),
          perf_clean =
            \<lparr>columns = cs,
             rows = enumerate 0
                      (map ((!) rs)
                         (kept_labels (discard_idx (perf_state L (read_sql cs rs))) (length rs)))\<rparr>\<rparr>"
  by (simp add: run_part2_etl_def Let_def dept_checks_eq stud_checks_eq perf_checks_eq
        clean_read_sql [OF discard_perf_state_subset])

section \<open>The cleaned frame\<close>

lemma kept_labels_disjoint: "set (kept_labels D n) \<inter> D = {}"
  by (auto simp: kept_labels_def)

lemma index_enumerate: "map fst (enumerate 0 xs) = [0..<length xs]"
  by (simp add: enumerate_eq_zip)

lemma snd_enumerate: "map snd (enumerate 0 xs) = xs"
  by (simp add: enumerate_eq_zip)

text \<open>
  C1. The cleaned performance frame holds exactly the rows of the loaded one whose label
  is outside the computed discard set, in their order, labelled \<open>0, 1, 2, ...\<close>; it has
  as many rows as the loaded frame less the size of the discard set, and no kept label
  is in the discard set.
\<close>

theorem C1_cleaned_rows:
  "\<exists>st out.
     perf_checks L (read_sql cs rs) = Inr st \<and>
     run_part2_etl L dept_t emp_t stud_t (cs, rs) = Inr out \<and>
     map snd (rows (perf_clean out)) = map ((!) rs) (kept_labels (discard_idx st) (length rs)) \<and>
     index (perf_clean out) = [0..<length rs - card (discard_idx st)] \<and>
     length (rows (perf_clean out)) = length rs - card (discard_idx st) \<and>
     set (kept_labels (discard_idx st) (length rs)) \<inter> discard_idx st = {}"
  by (simp add: perf_checks_eq run_part2_etl_eq index_def index_enumerate snd_enumerate
        kept_labels_disjoint length_kept_labels [OF discard_perf_state_subset])

lemma rt0_simps [simp]:
  "float_of_str rt0 = (\<lambda>s. None)" "int_of_str rt0 = (\<lambda>s. None)"
  "str_of_float rt0 = (\<lambda>q. ''?'')" "repr_of_cell rt0 = (\<lambda>v. ''?'')"
  by (simp_all add: rt0_def)

lemma float_of_int_small: "\<bar>n\<bar> < 2 ^ 53 \<Longrightarrow> float_of_int n = Some (FFin (of_int n))"
proof -
  assume a: "\<bar>n\<bar> < 2 ^ 53"
  then have "nat \<bar>n\<bar> < 2 ^ 53" by simp
  then have r: "round53 (nat \<bar>n\<bar>) = nat \<bar>n\<bar>" by (simp add: round53_def)
  have "\<not> (2 ^ 1024 \<le> nat \<bar>n\<bar>)" using a by simp
  then show ?thesis
    unfolding float_of_int_def r Let_def by (simp add: of_nat_nat)
qed

lemma perf_state_one_valid:
  "perf_state rt0 (read_sql [''Marks''] [[PInt 50]]) = \<lparr>perf_ex = [], discard_idx = {}\<rparr>"
  by (simp add: perf_state_def miss_rows_read_sql marks_part_def effort_part_def pair_part_def
        items_read_sql marks_step_def float_of_int_small)

text \<open>
  C7, as stated, fails: a frame with one valid row has an empty discard set, and the
  cleaned frame has as many rows as the loaded one, not fewer.
\<close>

theorem C7_counterexample:
  "run_part2_etl rt0 ([], []) ([], []) ([], []) ([''Marks''], [[PInt 50]]) =
     Inr \<lparr>dept_report = [], emp_report = [], stud_report = [], perf_report = [],
          perf_clean = \<lparr>columns = [''Marks''], rows = [(0, [PInt 50])]\<rparr>\<rparr>
   \<and> \<not> length [(0::nat, [PInt 50])] < length [[PInt 50]]"
  by (simp add: run_part2_etl_eq perf_state_one_valid kept_labels_def dept_report_of_def
        stud_report_of_def)

text \<open>
  C7, amended. The cleaned frame has at most as many rows as the loaded one, and fewer
  exactly when the discard set is not empty; it has the columns of the loaded frame, its
  rows are the loaded rows with a kept label, and no kept label is in the discard set.
\<close>

theorem C7_cleaned_subset:
  "\<exists>st out.
     perf_checks L (read_sql cs rs) = Inr st \<and>
     run_part2_etl L dept_t emp_t stud_t (cs, rs) = Inr out \<and>
     length (rows (perf_clean out)) \<le> length rs \<and>
     (length (rows (perf_clean out)) < length rs) = (discard_idx st \<noteq> {}) \<and>
     columns (perf_clean out) = cs \<and>
     map snd (rows (perf_clean out)) = map ((!) rs) (kept_labels (discard_idx st) (length rs)) \<and>
     set (kept_labels (discard_idx st) (length rs)) \<inter> discard_idx st = {}"
proof -
  let ?D = "discard_idx (perf_state L (read_sql cs rs))"
  have sub: "?D \<subseteq> {..<length rs}" by (rule discard_perf_state_subset)
  then have fin: "finite ?D" using finite_subset by blast
  have le: "card ?D \<le> length rs"
    using card_mono [OF _ sub] by simp
  have "(length rs - card ?D < length rs) = (?D \<noteq> {})"
  proof
    assume "length rs - card ?D < length rs"
    then have "card ?D \<noteq> 0" by arith
    then show "?D \<noteq> {}" by auto
  next
    assume "?D \<noteq> {}"
    then have "0 < card ?D" using fin by (simp add: card_gt_0_iff)
    moreover from \<open>?D \<noteq> {}\<close> sub have "0 < length rs" by auto
    ultimately show "length rs - card ?D < length rs" by arith
  qed
  then show ?thesis
    by (simp add: perf_checks_eq run_part2_etl_eq snd_enumerate kept_labels_disjoint
          length_kept_labels [OF sub])
qed

section \<open>Duplicate pairs and the discard set\<close>

lemma marks_step_rows:
  "row_index ` set (perf_ex (marks_step L rv \<lparr>perf_ex = [], discard_idx = {}\<rparr>)) =
     discard_idx (marks_step L rv \<lparr>perf_ex = [], discard_idx = {}\<rparr>)"
  by (simp add: marks_step_def Let_def mk_exc_def split: option.split)

lemma effort_step_rows:
  "row_index ` set (perf_ex (effort_step L rv \<lparr>perf_ex = [], discard_idx = {}\<rparr>)) =
     discard_idx (effort_step L rv \<lparr>perf_ex = [], discard_idx = {}\<rparr>)"
  by (simp add: effort_step_def Let_def mk_exc_def split: option.split)

lemma marks_step_column:
  "e \<in> set (perf_ex (marks_step L rv \<lparr>perf_ex = [], discard_idx = {}\<rparr>)) \<Longrightarrow>
     column e = ''Marks'' \<and> row_index e = fst rv \<and> marks_bad L (snd rv) \<and>
     issue_type e = (if py_float L (snd rv) = None then ''Invalid Type'' else ''Out-of-Range'')"
  by (auto simp: marks_step_def marks_bad_def Let_def mk_exc_def split: option.splits if_splits)

lemma effort_step_column:
  "e \<in> set (perf_ex (effort_step L rv \<lparr>perf_ex = [], discard_idx = {}\<rparr>)) \<Longrightarrow>
     column e = ''Effort_Hours'' \<and> row_index e = fst rv \<and> effort_bad L (snd rv) \<and>
     issue_type e = (if py_int L (snd rv) = None then ''Invalid Type'' else ''Out-of-Range'')"
  by (auto simp: effort_step_def effort_bad_def Let_def mk_exc_def split: option.splits if_splits)

lemma pair_step_column:
  "e \<in> set (perf_ex (pair_step L rp \<lparr>perf_ex = [], discard_idx = {}\<rparr>)) \<Longrightarrow>
     column e = ''Student_ID,Paper_ID'' \<and> row_index e = fst rp \<and>
     issue_type e = ''Duplicate Pair''"
  by (auto simp: pair_step_def mk_exc_def)

lemma marks_part_rows:
  "row_index ` set (perf_ex (marks_part L perf)) = discard_idx (marks_part L perf)"
  by (simp add: marks_part_def fold_marks image_UN marks_step_rows)

lemma effort_part_rows:
  "row_index ` set (perf_ex (effort_part L perf)) = discard_idx (effort_part L perf)"
  by (simp add: effort_part_def fold_effort image_UN effort_step_rows)

lemma marks_part_column:
  "e \<in> set (perf_ex (marks_part L perf)) \<Longrightarrow>
     column e = ''Marks'' \<and> issue_type e \<in> {''Invalid Type'', ''Out-of-Range''}"
  by (auto simp: marks_part_def fold_marks split: if_splits dest!: marks_step_column)

lemma effort_part_column:
  "e \<in> set (perf_ex (effort_part L perf)) \<Longrightarrow>
     column e = ''Effort_Hours'' \<and> issue_type e \<in> {''Invalid Type'', ''Out-of-Range''}"
  by (auto simp: effort_part_def fold_effort split: if_splits dest!: effort_step_column)

lemma pair_part_column:
  "e \<in> set (pair_part L perf) \<Longrightarrow>
     column e = ''Student_ID,Paper_ID'' \<and> issue_type e = ''Duplicate Pair''"
  by (auto simp: pair_part_def fold_pair split: if_splits dest!: pair_step_column)

lemma discard_eq_reported:
  "discard_idx (perf_state L perf) =
     row_index ` {e \<in> set (perf_ex (perf_state L perf)). issue_type e \<noteq> ''Duplicate Pair''}"
proof (cases "df_empty perf")
  case True
  then show ?thesis by (simp add: perf_state_def)
next
  case False
  let ?M = "map (\<lambda>r. mk_exc r ''(row)'' ''Missing'' ''Missing values in row'') (miss_rows perf)"
  have m: "{e \<in> set ?M. issue_type e \<noteq> ''Duplicate Pair''} = set ?M"
    by (auto simp: mk_exc_def)
  have k: "{e \<in> set (perf_ex (marks_part L perf)). issue_type e \<noteq> ''Duplicate Pair''}
             = set (perf_ex (marks_part L perf))"
    by (auto dest: marks_part_column)
  have f: "{e \<in> set (perf_ex (effort_part L perf)). issue_type e \<noteq> ''Duplicate Pair''}
             = set (perf_ex (effort_part L perf))"
    by (auto dest: effort_part_column)
  have p: "{e \<in> set (pair_part L perf). issue_type e \<noteq> ''Duplicate Pair''} = {}"
    by (auto dest: pair_part_column)
  have "{e \<in> set (perf_ex (perf_state L perf)). issue_type e \<noteq> ''Duplicate Pair''} =
          set ?M \<union> set (perf_ex (marks_part L perf)) \<union> set (perf_ex (effort_part L perf))"
    using False m k f p by (auto simp: perf_state_def)
  moreover have "row_index ` set ?M = set (miss_rows perf)"
    by (force simp: mk_exc_def image_image)
  ultimately show ?thesis
    using False by (simp add: perf_state_def image_Un marks_part_rows effort_part_rows)
qed

lemma length_duplicated [simp]: "length (duplicated eq vs) = length vs"
  by (simp add: duplicated_def)

lemma nth_duplicated:
  "i < length vs \<Longrightarrow>
     duplicated eq vs ! i = (\<exists>j<length vs. j \<noteq> i \<and> eq (vs ! i) (vs ! j))"
  by (auto simp: duplicated_def list_ex_iff)

lemma in_marked:
  "x \<in> set (marked eq its) \<longleftrightarrow>
     (\<exists>i<length its. its ! i = x \<and> (\<exists>j<length its. j \<noteq> i \<and> eq (snd (its ! i)) (snd (its ! j))))"
proof -
  have "x \<in> set (marked eq its) \<longleftrightarrow> (x, True) \<in> set (zip its (duplicated eq (map snd its)))"
    by (force simp: marked_def)
  also have "\<dots> \<longleftrightarrow> (\<exists>i<length its. its ! i = x \<and> duplicated eq (map snd its) ! i)"
    by (auto simp: in_set_zip)
  also have "\<dots> \<longleftrightarrow> (\<exists>i<length its. its ! i = x \<and>
                 (\<exists>j<length its. j \<noteq> i \<and> eq (snd (its ! i)) (snd (its ! j))))"
  proof -
    have "duplicated eq (map snd its) ! i =
            (\<exists>j<length its. j \<noteq> i \<and> eq (snd (its ! i)) (snd (its ! j)))"
      if "i < length its" for i
      using that nth_duplicated [of i "map snd its" eq] by auto
    then show ?thesis by blast
  qed
  finally show ?thesis .
qed

lemma pair_items_read_sql:
  "pair_items (read_sql cs rs) = map (\<lambda>i. (i, pair_key cs (rs ! i))) [0..<length rs]"
  by (rule nth_equalityI) (simp_all add: pair_items_def pair_key_def nth_enumerate_eq)

lemma in_marked_pairs:
  "(i, k) \<in> set (marked pair_same (pair_items (read_sql cs rs))) \<longleftrightarrow>
     i < length rs \<and> k = pair_key cs (rs ! i) \<and>
     (\<exists>j<length rs. j \<noteq> i \<and> pair_same (pair_key cs (rs ! i)) (pair_key cs (rs ! j)))"
proof -
  have "(i, k) \<in> set (marked pair_same (pair_items (read_sql cs rs))) \<longleftrightarrow>
          (\<exists>a<length rs. (a, pair_key cs (rs ! a)) = (i, k) \<and>
             (\<exists>j<length rs. j \<noteq> a \<and> pair_same (pair_key cs (rs ! a)) (pair_key cs (rs ! j))))"
    by (simp add: in_marked pair_items_read_sql cong: conj_cong)
  also have "\<dots> \<longleftrightarrow> i < length rs \<and> k = pair_key cs (rs ! i) \<and>
     (\<exists>j<length rs. j \<noteq> i \<and> pair_same (pair_key cs (rs ! i)) (pair_key cs (rs ! j)))"
    by auto
  finally show ?thesis .
qed

lemma pair_part_reported:
  assumes "{''Student_ID'', ''Paper_ID''} \<subseteq> set cs"
    and "i < length rs" "j < length rs" "j \<noteq> i"
    and "pair_same (pair_key cs (rs ! i)) (pair_key cs (rs ! j))"
  shows "\<exists>e\<in>set (pair_part L (read_sql cs rs)).
           row_index e = i \<and> column e = ''Student_ID,Paper_ID'' \<and> issue_type e = ''Duplicate Pair''"
proof -
  let ?e = "mk_exc i ''Student_ID,Paper_ID'' ''Duplicate Pair''
              (''('' @ repr_of_cell L (fst (pair_key cs (rs ! i))) @ '', '' @
               repr_of_cell L (snd (pair_key cs (rs ! i))) @ '')'' @ '' appears more than once'')"
  have "(i, pair_key cs (rs ! i)) \<in> set (marked pair_same (pair_items (read_sql cs rs)))"
    using assms by (auto simp: in_marked_pairs)
  moreover have "?e \<in> set (perf_ex (pair_step L (i, pair_key cs (rs ! i))
                                  \<lparr>perf_ex = [], discard_idx = {}\<rparr>))"
    by (simp add: pair_step_def)
  ultimately have "?e \<in> set (pair_part L (read_sql cs rs))"
    using assms(1) by (auto simp: pair_part_def fold_pair)
  then show ?thesis
    by (rule bexI [rotated]) (simp add: mk_exc_def)
qed

lemma kept_labels_empty: "kept_labels {} n = [0..<n]"
  by (simp add: kept_labels_def)

lemma map_nth_upt: "map ((!) rs) [0..<length rs] = rs"
  by (rule map_nth)

text \<open>
  C2. The discard set is the set of rows of the records that are not Duplicate Pair
  records, so a Duplicate Pair record adds no row to it. When every record of the
  performance report is a Duplicate Pair record, the cleaned frame holds all loaded rows;
  and with both key columns present, every row whose key occurs in another row as well is
  in the report with a Duplicate Pair record.
\<close>

theorem C2_duplicate_pairs_retained:
  "\<exists>st out.
     perf_checks L (read_sql cs rs) = Inr st \<and>
     run_part2_etl L dept_t emp_t stud_t (cs, rs) = Inr out \<and>
     perf_report out = perf_ex st \<and>
     discard_idx st = row_index ` {e \<in> set (perf_ex st). issue_type e \<noteq> ''Duplicate Pair''} \<and>
     ((\<forall>e\<in>set (perf_ex st). issue_type e = ''Duplicate Pair'') \<longrightarrow>
        map snd (rows (perf_clean out)) = rs \<and> length (rows (perf_clean out)) = length rs) \<and>
     ({''Student_ID'', ''Paper_ID''} \<subseteq> set cs \<longrightarrow>
        (\<forall>i<length rs. \<forall>j<length rs.
           j \<noteq> i \<and> pair_same (pair_key cs (rs ! i)) (pair_key cs (rs ! j)) \<longrightarrow>
           (\<exists>e\<in>set (perf_report out).
              row_index e = i \<and> column e = ''Student_ID,Paper_ID'' \<and>
              issue_type e = ''Duplicate Pair'')))"
proof -
  let ?perf = "read_sql cs rs"
  let ?st = "perf_state L ?perf"
  have d: "discard_idx ?st =
             row_index ` {e \<in> set (perf_ex ?st). issue_type e \<noteq> ''Duplicate Pair''}"
    by (rule discard_eq_reported)
  have only: "map ((!) rs) (kept_labels (discard_idx ?st) (length rs)) = rs"
    if "\<forall>e\<in>set (perf_ex ?st). issue_type e = ''Duplicate Pair''"
  proof -
    from that d have "discard_idx ?st = {}" by auto
    then show ?thesis by (simp add: kept_labels_empty map_nth)
  qed
  have rep: "\<exists>e\<in>set (perf_ex ?st).
               row_index e = i \<and> column e = ''Student_ID,Paper_ID'' \<and>
               issue_type e = ''Duplicate Pair''"
    if "{''Student_ID'', ''Paper_ID''} \<subseteq> set cs" "i < length rs" "j < length rs" "j \<noteq> i"
       "pair_same (pair_key cs (rs ! i)) (pair_key cs (rs ! j))" for i j
  proof -
    from that(1,2) have ne: "\<not> df_empty ?perf" by auto
    from pair_part_reported [OF that] obtain e where
      "e \<in> set (pair_part L ?perf)" "row_index e = i" "column e = ''Student_ID,Paper_ID''"
      "issue_type e = ''Duplicate Pair''" by blast
    moreover have "set (pair_part L ?perf) \<subseteq> set (perf_ex ?st)"
      using ne by (auto simp: perf_state_def)
    ultimately show ?thesis by blast
  qed
  show ?thesis
    apply (simp only: perf_checks_eq run_part2_etl_eq)
    apply (intro exI conjI)
         apply (rule refl)
        apply (rule refl)
       apply simp
      apply (rule d)
     apply (simp add: snd_enumerate only)
    apply (simp add: rep)
    done
qed

lemma pos_perf_cols [simp]:
  "pos ''Student_ID'' perf_cols = 0" "pos ''Paper_ID'' perf_cols = 1"
  "pos ''Marks'' perf_cols = 2" "pos ''Effort_Hours'' perf_cols = 3"
  by (simp_all add: perf_cols_def)

lemma set_perf_cols [simp]:
  "''Student_ID'' \<in> set perf_cols" "''Paper_ID'' \<in> set perf_cols"
  "''Marks'' \<in> set perf_cols" "''Effort_Hours'' \<in> set perf_cols" "perf_cols \<noteq> []"
  by (simp_all add: perf_cols_def)

lemma upt_2: "[0..<2] = [0, 1]"
  by (simp add: upt_rec)

lemma issues_two_same_keys:
  "map issue_type (perf_ex (perf_state rt0 (read_sql perf_cols two_same_keys))) =
     [''Duplicate Pair'', ''Duplicate Pair'']"
  by (simp add: perf_state_def miss_rows_read_sql marks_part_def effort_part_def pair_part_def
        items_read_sql pair_items_read_sql marks_step_def effort_step_def pair_step_def
        float_of_int_small two_same_keys_def upt_2 marked_def duplicated_def pair_key_def
        pair_same_def factor_same_def mk_exc_def)

theorem C2_witness:
  "map issue_type (perf_ex (perf_state rt0 (read_sql perf_cols two_same_keys))) =
     [''Duplicate Pair'', ''Duplicate Pair'']
   \<and> pair_same (pair_key perf_cols (two_same_keys ! 0)) (pair_key perf_cols (two_same_keys ! 1))
   \<and> map snd (rows (perf_clean (projr
        (run_part2_etl rt0 ([], []) ([], []) ([], []) (perf_cols, two_same_keys))))) = two_same_keys"
proof -
  from C2_duplicate_pairs_retained [of rt0 perf_cols two_same_keys "([], [])" "([], [])" "([], [])"]
  obtain st out where
    st: "perf_checks rt0 (read_sql perf_cols two_same_keys) = Inr st" and
    out: "run_part2_etl rt0 ([], []) ([], []) ([], []) (perf_cols, two_same_keys) = Inr out" and
    imp: "(\<forall>e\<in>set (perf_ex st). issue_type e = ''Duplicate Pair'') \<longrightarrow>
            map snd (rows (perf_clean out)) = two_same_keys \<and>
            length (rows (perf_clean out)) = length two_same_keys"
    by blast
  from st have "st = perf_state rt0 (read_sql perf_cols two_same_keys)"
    by (simp add: perf_checks_eq)
  then have "map issue_type (perf_ex st) = [''Duplicate Pair'', ''Duplicate Pair'']"
    by (simp only: issues_two_same_keys)
  then have "set (map issue_type (perf_ex st)) = {''Duplicate Pair''}"
    by simp
  then have "\<forall>e\<in>set (perf_ex st). issue_type e = ''Duplicate Pair''"
    by auto
  with imp have "map snd (rows (perf_clean out)) = two_same_keys" by blast
  moreover have "pair_same (pair_key perf_cols (two_same_keys ! 0))
                   (pair_key perf_cols (two_same_keys ! 1))"
    by (simp add: two_same_keys_def pair_key_def pair_same_def factor_same_def)
  ultimately show ?thesis
    using out issues_two_same_keys by simp
qed

section \<open>Valid rows of the cleaned frame\<close>

lemma bit_length_lower: "0 < m \<Longrightarrow> 2 ^ (bit_length m - 1) \<le> m"
proof (induction m rule: bit_length.induct)
  case (1 n)
  show ?case
  proof (cases "n div 2 = 0")
    case True
    with "1.prems" have "n = 1" by (simp add: div_eq_0_iff) 
    then show ?thesis
      by (simp add: bit_length.simps [of "Suc 0"] bit_length.simps [of 0])
  next
    case False
    then have pos: "0 < n div 2" by simp
    with "1.IH" "1.prems" have ih: "2 ^ (bit_length (n div 2) - 1) \<le> n div 2" by simp
    from pos have "0 < bit_length (n div 2)"
      by (subst bit_length.simps) simp
    then have "bit_length n - 1 = Suc (bit_length (n div 2) - 1)"
      using "1.prems" by (subst bit_length.simps) simp
    then have "(2::nat) ^ (bit_length n - 1) = 2 * 2 ^ (bit_length (n div 2) - 1)"
      by simp
    also have "\<dots> \<le> 2 * (n div 2)" using ih by simp
    also have "\<dots> \<le> n" by simp
    finally show ?thesis .
  qed
qed

lemma round53_large:
  assumes "2 ^ 53 \<le> m"
  shows "2 ^ 52 \<le> round53 m"
proof -
  define e where "e = bit_length m - 53"
  define q where "q = m div 2 ^ e"
  from assms have mpos: "0 < m" by (simp add: less_le_trans [of 0 "2 ^ 53"])
  have pw: "(2::nat) ^ 52 * 2 ^ e \<le> m"
  proof (cases "e = 0")
    case True
    have "(2::nat) ^ 52 \<le> 2 ^ 53" by simp
    with assms True show ?thesis by simp
  next
    case False
    then have "bit_length m - 1 = 52 + e" by (simp add: e_def)
    with bit_length_lower [OF mpos] show ?thesis by (simp add: power_add)
  qed
  then have q: "2 ^ 52 \<le> q"
    by (simp add: q_def less_eq_div_iff_mult_less_eq)
  have "q \<le> q * 2 ^ e" "q \<le> (q + 1) * 2 ^ e"
    by (simp_all add: add_mult_distrib trans_le_add2)
  then have "q \<le> (if 2 ^ (e - 1) < m mod 2 ^ e \<or> (m mod 2 ^ e = 2 ^ (e - 1) \<and> odd q) then q + 1 else q) * 2 ^ e"
    by (cases "2 ^ (e - 1) < m mod 2 ^ e \<or> (m mod 2 ^ e = 2 ^ (e - 1) \<and> odd q)") simp_all
  also have "\<dots> = round53 m"
    using assms by (simp add: round53_def Let_def e_def q_def)
  finally show ?thesis using q by simp
qed

lemma above_100: "(2::nat) ^ 52 \<le> r \<Longrightarrow> 100 < r"
proof -
  assume a: "(2::nat) ^ 52 \<le> r"
  have "(100::nat) < 2 ^ 52" by simp
  from this a show ?thesis by (rule less_le_trans)
qed

lemma large_not_in_range: "\<not> \<bar>n\<bar> < 2 ^ 53 \<Longrightarrow> \<not> (0 \<le> n \<and> n \<le> (100::int))"
proof
  assume a: "\<not> \<bar>n\<bar> < 2 ^ 53" and b: "0 \<le> n \<and> n \<le> 100"
  have "(100::int) < 2 ^ 53" by simp
  with b have "\<bar>n\<bar> < 2 ^ 53" by linarith
  with a show False by simp
qed

lemma float_of_int_large:
  "100 < round53 (nat \<bar>n\<bar>) \<Longrightarrow> float_of_int n = Some f \<Longrightarrow> \<not> in_0_100 f"
  by (auto simp: float_of_int_def Let_def split: if_splits)

lemma float_of_int_range:
  "(case float_of_int n of None \<Rightarrow> False | Some f \<Rightarrow> in_0_100 f) \<longleftrightarrow> 0 \<le> n \<and> n \<le> 100"
proof (cases "\<bar>n\<bar> < 2 ^ 53")
  case True
  then show ?thesis by (simp add: float_of_int_small)
next
  case False
  then have "(2::nat) ^ 53 \<le> nat \<bar>n\<bar>" by simp
  then have "100 < round53 (nat \<bar>n\<bar>)"
    by (intro above_100 round53_large)
  then have "\<not> (case float_of_int n of None \<Rightarrow> False | Some f \<Rightarrow> in_0_100 f)"
    by (auto split: option.splits dest: float_of_int_large)
  with large_not_in_range [OF False] show ?thesis by simp
qed

lemma marks_bad_iff: "marks_bad L v \<longleftrightarrow> \<not> marks_in_range L v"
proof (cases v)
  case (PInt n)
  with float_of_int_range [of n] show ?thesis
    by (simp add: marks_bad_def split: option.splits)
next
  case (PFloat f)
  then show ?thesis by (cases f) (simp_all add: marks_bad_def)
next
  case (PStr s)
  then show ?thesis
    by (auto simp: marks_bad_def split: option.splits pyfloat.splits)
qed (simp add: marks_bad_def)

lemma is_integer_Ints: "is_integer (FFin q) \<longleftrightarrow> q \<in> \<int>"
proof
  assume "is_integer (FFin q)"
  then have "of_int \<lfloor>q\<rfloor> = q" by (simp only: is_integer.simps)
  then show "q \<in> \<int>" by (metis Ints_of_int)
next
  assume "q \<in> \<int>"
  then obtain k where "q = of_int k" by (rule Ints_cases)
  then show "is_integer (FFin q)" by simp
qed

lemma effort_bad_float:
  "effort_bad L (PFloat (FFin q)) \<longleftrightarrow> \<not> (0 \<le> q \<and> q \<in> \<int>)"
proof (cases "q \<in> \<int>")
  case True
  then obtain k where k: "q = of_int k" by (rule Ints_cases)
  then show ?thesis
    by (simp add: effort_bad_def trunc_rat_def)
next
  case False
  then show ?thesis
    by (simp add: effort_bad_def is_integer_Ints [symmetric])
qed

lemma effort_bad_iff: "effort_bad L v \<longleftrightarrow> \<not> effort_whole L v"
proof (cases v)
  case (PFloat f)
  show ?thesis
  proof (cases f)
    case (FFin q)
    with PFloat show ?thesis by (simp add: effort_bad_float)
  qed (simp_all add: PFloat effort_bad_def)
qed (auto simp: effort_bad_def split: option.splits)

lemma in_cleaned_rows:
  assumes "run_part2_etl L dept_t emp_t stud_t (cs, rs) = Inr out"
    and "(r, row) \<in> set (rows (perf_clean out))"
  shows "\<exists>i<length rs. i \<notin> discard_idx (perf_state L (read_sql cs rs)) \<and> row = rs ! i"
proof -
  let ?kept = "kept_labels (discard_idx (perf_state L (read_sql cs rs))) (length rs)"
  from assms(1) have "rows (perf_clean out) = enumerate 0 (map ((!) rs) ?kept)"
    by (auto simp: run_part2_etl_eq)
  with assms(2) have "row \<in> set (map ((!) rs) ?kept)"
    by (auto simp: in_set_enumerate_eq)
  then show ?thesis
    by (auto simp: kept_labels_def)
qed

lemma discard_two_same_keys:
  "discard_idx (perf_state rt0 (read_sql perf_cols two_same_keys)) = {}"
proof -
  have "set (map issue_type (perf_ex (perf_state rt0 (read_sql perf_cols two_same_keys)))) =
          {''Duplicate Pair''}"
    by (simp only: issues_two_same_keys) simp
  then show ?thesis
    by (subst discard_eq_reported) auto
qed

lemma run_two_same_keys:
  "perf_clean (projr (run_part2_etl rt0 ([], []) ([], []) ([], []) (perf_cols, two_same_keys))) =
     \<lparr>columns = perf_cols, rows = enumerate 0 two_same_keys\<rparr>"
  by (simp add: run_part2_etl_eq discard_two_same_keys kept_labels_empty map_nth)

text \<open>
  C3. With the columns \<^verbatim>\<open>Marks\<close> and \<^verbatim>\<open>Effort_Hours\<close> in the performance frame,
  every row of the cleaned frame has marks in \<open>[0, 100]\<close> and effort hours that are
  a whole number, not negative.
\<close>

theorem C3_cleaned_rows_in_range:
  assumes "''Marks'' \<in> set cs" and "''Effort_Hours'' \<in> set cs"
    and "run_part2_etl L dept_t emp_t stud_t (cs, rs) = Inr out"
    and "(r, row) \<in> set (rows (perf_clean out))"
  shows "marks_in_range L (row ! pos ''Marks'' cs) \<and>
         effort_whole L (row ! pos ''Effort_Hours'' cs)"
proof -
  from in_cleaned_rows [OF assms(3,4)] obtain i where
    i: "i < length rs" "i \<notin> discard_idx (perf_state L (read_sql cs rs))" "row = rs ! i"
    by blast
  from assms(1) have "cs \<noteq> []" by auto
  with i assms(1,2) discard_iff [OF perf_checks_eq, where i = i and L = L and cs = cs and rs = rs]
  have "\<not> marks_bad L (row ! pos ''Marks'' cs)"
    and "\<not> effort_bad L (row ! pos ''Effort_Hours'' cs)"
    by auto
  then show ?thesis
    by (simp add: marks_bad_iff effort_bad_iff)
qed

theorem C3_witness:
  "''Marks'' \<in> set perf_cols \<and> ''Effort_Hours'' \<in> set perf_cols \<and>
   (0, [PInt 5, PInt 9, PInt 50, PInt 3]) \<in> set (rows (perf_clean (projr
      (run_part2_etl rt0 ([], []) ([], []) ([], []) (perf_cols, two_same_keys))))) \<and>
   marks_in_range rt0 ([PInt 5, PInt 9, PInt 50, PInt 3] ! pos ''Marks'' perf_cols) \<and>
   effort_whole rt0 ([PInt 5, PInt 9, PInt 50, PInt 3] ! pos ''Effort_Hours'' perf_cols)"
proof -
  let ?run = "run_part2_etl rt0 ([], []) ([], []) ([], []) (perf_cols, two_same_keys)"
  have run: "?run = Inr (projr ?run)"
    by (simp add: run_part2_etl_eq)
  have mem: "(0, [PInt 5, PInt 9, PInt 50, PInt 3]) \<in> set (rows (perf_clean (projr ?run)))"
    by (simp only: run_two_same_keys) (simp add: two_same_keys_def)
  from C3_cleaned_rows_in_range [OF _ _ run mem] mem show ?thesis
    by simp
qed

section \<open>Marks that are not numbers\<close>

lemma in_marks_part:
  "e \<in> set (perf_ex (marks_part L (read_sql cs rs))) \<longleftrightarrow>
     ''Marks'' \<in> set cs \<and>
     (\<exists>i<length rs. e \<in> set (perf_ex (marks_step L (i, rs ! i ! pos ''Marks'' cs)
                                          \<lparr>perf_ex = [], discard_idx = {}\<rparr>)))"
  by (simp add: marks_part_def fold_marks items_read_sql) force

lemma set_perf_report:
  "\<not> df_empty perf \<Longrightarrow>
     set (perf_ex (perf_state L perf)) =
       (\<lambda>r. mk_exc r ''(row)'' ''Missing'' ''Missing values in row'') ` set (miss_rows perf)
       \<union> set (perf_ex (marks_part L perf)) \<union> set (perf_ex (effort_part L perf))
       \<union> set (pair_part L perf)"
  by (simp add: perf_state_def Un_assoc)

lemma marks_record_only_from_marks:
  assumes "\<not> df_empty perf" and "e \<in> set (perf_ex (perf_state L perf))"
    and "column e = ''Marks''"
  shows "e \<in> set (perf_ex (marks_part L perf))"
proof -
  from assms(2) have "e \<in> (\<lambda>r. mk_exc r ''(row)'' ''Missing'' ''Missing values in row'') ` set (miss_rows perf)
       \<or> e \<in> set (perf_ex (marks_part L perf)) \<or> e \<in> set (perf_ex (effort_part L perf))
       \<or> e \<in> set (pair_part L perf)"
    by (simp add: set_perf_report [OF assms(1)])
  then show ?thesis
  proof (elim disjE)
    assume "e \<in> (\<lambda>r. mk_exc r ''(row)'' ''Missing'' ''Missing values in row'') ` set (miss_rows perf)"
    with assms(3) show ?thesis by (auto simp: mk_exc_def)
  next
    assume "e \<in> set (perf_ex (effort_part L perf))"
    from effort_part_column [OF this] assms(3) show ?thesis by simp
  next
    assume "e \<in> set (pair_part L perf)"
    from pair_part_column [OF this] assms(3) show ?thesis by simp
  qed
qed

lemma pos_less: "c \<in> set cs \<Longrightarrow> pos c cs < length cs"
  by (induction cs) auto

text \<open>
  C5. A performance row whose marks cannot be read as a float gets an Invalid Type
  record on \<^verbatim>\<open>Marks\<close> and its label enters the discard set; the run ends with
  its outputs all the same, and the row is not among the cleaned rows.
\<close>

theorem C5_unparseable_marks:
  assumes "''Marks'' \<in> set cs" and "i < length rs"
    and "py_float L (rs ! i ! pos ''Marks'' cs) = None"
  shows "\<exists>st out.
     perf_checks L (read_sql cs rs) = Inr st \<and>
     run_part2_etl L dept_t emp_t stud_t (cs, rs) = Inr out \<and>
     mk_exc i ''Marks'' ''Invalid Type''
        (''Marks='' @ py_str L (rs ! i ! pos ''Marks'' cs) @ '' not numeric'')
       \<in> set (perf_report out) \<and>
     i \<in> discard_idx st \<and>
     i \<notin> set (kept_labels (discard_idx st) (length rs)) \<and>
     map snd (rows (perf_clean out)) = map ((!) rs) (kept_labels (discard_idx st) (length rs)) \<and>
     length (rows (perf_clean out)) < length rs"
proof -
  let ?perf = "read_sql cs rs"
  let ?v = "rs ! i ! pos ''Marks'' cs"
  let ?e = "mk_exc i ''Marks'' ''Invalid Type'' (''Marks='' @ py_str L ?v @ '' not numeric'')"
  let ?D = "discard_idx (perf_state L ?perf)"
  from assms(1,2) have ne: "\<not> df_empty ?perf" by auto
  have "?e \<in> set (perf_ex (marks_step L (i, ?v) \<lparr>perf_ex = [], discard_idx = {}\<rparr>))"
    using assms(3) by (simp add: marks_step_def)
  with assms(1,2) have "?e \<in> set (perf_ex (marks_part L ?perf))"
    by (auto simp: in_marks_part)
  then have rep: "?e \<in> set (perf_ex (perf_state L ?perf))"
    by (simp add: set_perf_report [OF ne])
  have "marks_bad L ?v" using assms(3) by (simp add: marks_bad_def)
  with assms(1,2) have dis: "i \<in> ?D"
    by (auto simp: discard_iff [OF perf_checks_eq])
  then have nk: "i \<notin> set (kept_labels ?D (length rs))"
    by (simp add: kept_labels_def)
  have sub: "?D \<subseteq> {..<length rs}" by (rule discard_perf_state_subset)
  then have "finite ?D" using finite_subset by blast
  with dis have "0 < card ?D" by (auto simp: card_gt_0_iff)
  with assms(2) have less: "length rs - card ?D < length rs" by arith
  show ?thesis
    using rep dis nk less
    by (simp add: perf_checks_eq run_part2_etl_eq snd_enumerate length_kept_labels [OF sub])
qed

theorem C5_witness:
  "''Marks'' \<in> set perf_cols \<and> 0 < length scenario_c \<and>
   py_float rt0 (scenario_c ! 0 ! pos ''Marks'' perf_cols) = None \<and>
   mk_exc 0 ''Marks'' ''Invalid Type'' ''Marks=abc not numeric''
     \<in> set (perf_report (projr
           (run_part2_etl rt0 ([], []) ([], []) ([], []) (perf_cols, scenario_c)))) \<and>
   rows (perf_clean (projr
           (run_part2_etl rt0 ([], []) ([], []) ([], []) (perf_cols, scenario_c)))) = []"
proof -
  have h1: "''Marks'' \<in> set perf_cols" by simp
  have h2: "0 < length scenario_c" by (simp add: scenario_c_def)
  have h3: "py_float rt0 (scenario_c ! 0 ! pos ''Marks'' perf_cols) = None"
    by (simp add: scenario_c_def)
  from C5_unparseable_marks [OF h1 h2 h3, of "([], [])" "([], [])" "([], [])"]
  obtain st out where
    out: "run_part2_etl rt0 ([], []) ([], []) ([], []) (perf_cols, scenario_c) = Inr out" and
    rep: "mk_exc 0 ''Marks'' ''Invalid Type''
            (''Marks='' @ py_str rt0 (scenario_c ! 0 ! pos ''Marks'' perf_cols) @ '' not numeric'')
          \<in> set (perf_report out)" and
    len: "length (rows (perf_clean out)) < length scenario_c"
    by blast
  from len have "rows (perf_clean out) = []" by (simp add: scenario_c_def)
  moreover from rep have "mk_exc 0 ''Marks'' ''Invalid Type'' ''Marks=abc not numeric''
                            \<in> set (perf_report out)"
    by (simp add: scenario_c_def)
  ultimately show ?thesis
    using h1 h2 h3 out by simp
qed

text \<open>
  C10. A performance row whose marks are NaN gets an Out-of-Range record on
  \<^verbatim>\<open>Marks\<close> and the Missing record of the row; every record on \<^verbatim>\<open>Marks\<close> for this
  row is an Out-of-Range record, none an Invalid Type record. The label of the row is
  among the rows with missing values and among the labels the marks loop discards, so it
  is in the discard set.
\<close>

theorem C10_nan_marks:
  assumes "''Marks'' \<in> set cs" and "i < length rs" and "length (rs ! i) = length cs"
    and "rs ! i ! pos ''Marks'' cs = PFloat FNan"
  shows "\<exists>st out.
     perf_checks L (read_sql cs rs) = Inr st \<and>
     run_part2_etl L dept_t emp_t stud_t (cs, rs) = Inr out \<and>
     mk_exc i ''Marks'' ''Out-of-Range'' ''Marks=nan not in [0,100]'' \<in> set (perf_report out) \<and>
     mk_exc i ''(row)'' ''Missing'' ''Missing values in row'' \<in> set (perf_report out) \<and>
     (\<forall>e\<in>set (perf_report out).
        row_index e = i \<and> column e = ''Marks'' \<longrightarrow> issue_type e = ''Out-of-Range'') \<and>
     i \<in> set (miss_rows (read_sql cs rs)) \<and>
     i \<in> discard_idx (marks_part L (read_sql cs rs)) \<and>
     i \<in> discard_idx st"
proof -
  let ?perf = "read_sql cs rs"
  let ?st0 = "\<lparr>perf_ex = [], discard_idx = {}\<rparr>"
  let ?oor = "mk_exc i ''Marks'' ''Out-of-Range'' ''Marks=nan not in [0,100]''"
  let ?mis = "mk_exc i ''(row)'' ''Missing'' ''Missing values in row''"
  from assms(1,2) have ne: "\<not> df_empty ?perf" by auto
  have "?oor \<in> set (perf_ex (marks_step L (i, rs ! i ! pos ''Marks'' cs) ?st0))"
    by (simp add: assms(4) marks_step_def)
  with assms(1,2) have "?oor \<in> set (perf_ex (marks_part L ?perf))"
    by (auto simp: in_marks_part)
  then have oor: "?oor \<in> set (perf_ex (perf_state L ?perf))"
    by (simp add: set_perf_report [OF ne])
  from pos_less [OF assms(1)] assms(3) have "pos ''Marks'' cs < length (rs ! i)" by simp
  then have "rs ! i ! pos ''Marks'' cs \<in> set (rs ! i)" by (rule nth_mem)
  with assms(4) have "list_ex pd_isna (rs ! i)"
    by (auto simp: list_ex_iff intro!: bexI [where x = "PFloat FNan"])
  with assms(2) have mr: "i \<in> set (miss_rows ?perf)"
    by (simp add: in_miss_rows_read_sql)
  then have mis: "?mis \<in> set (perf_ex (perf_state L ?perf))"
    by (simp add: set_perf_report [OF ne])
  have "marks_bad L (rs ! i ! pos ''Marks'' cs)"
    by (simp add: assms(4) marks_bad_def)
  with assms(1,2) have md: "i \<in> discard_idx (marks_part L ?perf)"
    by (simp add: discard_marks_part)
  from mr assms(1,2) have dis: "i \<in> discard_idx (perf_state L ?perf)"
    using ne by (simp add: perf_state_def)
  have only: "issue_type e = ''Out-of-Range''"
    if e: "e \<in> set (perf_ex (perf_state L ?perf))" "row_index e = i" "column e = ''Marks''" for e
  proof -
    from marks_record_only_from_marks [OF ne e(1) e(3)]
    obtain j where j: "j < length rs"
      "e \<in> set (perf_ex (marks_step L (j, rs ! j ! pos ''Marks'' cs) ?st0))"
      by (auto simp: in_marks_part)
    from marks_step_column [OF j(2)] e(2) have "j = i"
      and "issue_type e = (if py_float L (rs ! j ! pos ''Marks'' cs) = None
                           then ''Invalid Type'' else ''Out-of-Range'')"
      by simp_all
    with assms(4) show ?thesis by simp
  qed
  show ?thesis
    using oor mis mr md dis only
    by (simp add: perf_checks_eq run_part2_etl_eq)
qed

theorem C10_witness:
  "''Marks'' \<in> set perf_cols \<and> 0 < length nan_marks \<and>
   length (nan_marks ! 0) = length perf_cols \<and>
   nan_marks ! 0 ! pos ''Marks'' perf_cols = PFloat FNan \<and>
   mk_exc 0 ''Marks'' ''Out-of-Range'' ''Marks=nan not in [0,100]''
     \<in> set (perf_report (projr
           (run_part2_etl rt0 ([], []) ([], []) ([], []) (perf_cols, nan_marks)))) \<and>
   0 \<in> discard_idx (marks_part rt0 (read_sql perf_cols nan_marks))"
proof -
  have h1: "''Marks'' \<in> set perf_cols" by simp
  have h2: "0 < length nan_marks" by (simp add: nan_marks_def)
  have h3: "length (nan_marks ! 0) = length perf_cols"
    by (simp add: nan_marks_def perf_cols_def)
  have h4: "nan_marks ! 0 ! pos ''Marks'' perf_cols = PFloat FNan"
    by (simp add: nan_marks_def)
  from C10_nan_marks [OF h1 h2 h3 h4, of rt0 "([], [])" "([], [])" "([], [])"]
  obtain st out where
    "run_part2_etl rt0 ([], []) ([], []) ([], []) (perf_cols, nan_marks) = Inr out"
    "mk_exc 0 ''Marks'' ''Out-of-Range'' ''Marks=nan not in [0,100]'' \<in> set (perf_report out)"
    "0 \<in> discard_idx (marks_part rt0 (read_sql perf_cols nan_marks))"
    by blast
  then show ?thesis
    using h1 h2 h3 h4 by simp
qed

section \<open>The year of a department\<close>

lemma dept_missing_part_column:
  "e \<in> set (fold (dept_missing_step cs) xs []) \<Longrightarrow>
     issue_type e = ''Missing'' \<and> column e \<in> set cs"
  by (auto simp: fold_append_step [of "dept_missing_step cs", OF dept_missing_step_def]
        dept_missing_row_def mk_exc_def dest: set_zip_leftD)

lemma dup_part_column:
  "e \<in> set (dup_part L c t df) \<Longrightarrow> column e = c \<and> issue_type e = t \<and> c \<in> set (columns df)"
  by (auto simp: dup_part_def fold_dup dup_step_def mk_exc_def split: if_splits)

lemma in_doe_part:
  "e \<in> set (doe_part L (read_sql cs rs)) \<longleftrightarrow>
     ''DOE'' \<in> set cs \<and> (\<exists>i<length rs. e \<in> set (doe_step L (i, rs ! i ! pos ''DOE'' cs) []))"
  by (simp add: doe_part_def fold_doe items_read_sql) force

lemma doe_step_record:
  "e \<in> set (doe_step L rv []) \<Longrightarrow>
     row_index e = fst rv \<and> column e = ''DOE'' \<and>
     issue_type e = (if pd_isna (snd rv) then ''Out-of-Range''
                     else if py_int L (snd rv) = None then ''Invalid Type'' else ''Out-of-Range'')"
  by (auto simp: doe_step_def Let_def mk_exc_def split: option.splits if_splits)

lemma doe_step_nonempty:
  "doe_step L rv [] \<noteq> [] \<longleftrightarrow>
     pd_isna (snd rv) \<or> py_int L (snd rv) = None \<or> (\<exists>k. py_int L (snd rv) = Some k \<and> k < 1900)"
  by (auto simp: doe_step_def Let_def split: option.splits)

lemma set_dept_report:
  "\<not> df_empty dept \<Longrightarrow>
     set (dept_report_of L dept) =
       set (fold (dept_missing_step (columns dept)) (enumerate 0 (map snd (rows dept))) [])
       \<union> set (dup_part L ''Department_ID'' ''Duplicate Key'' dept)
       \<union> set (dup_part L ''Department_Name'' ''Duplicate Value'' dept)
       \<union> set (doe_part L dept)"
  by (simp add: dept_report_of_def Un_assoc)

lemma typed_record_from_doe:
  assumes "e \<in> set (dept_report_of L dept)"
    and "issue_type e = ''Invalid Type'' \<or> issue_type e = ''Out-of-Range''"
  shows "e \<in> set (doe_part L dept)"
proof -
  from assms(1) have ne: "\<not> df_empty dept"
    by (auto simp: dept_report_of_def split: if_splits)
  from assms(1) have "e \<in> set (fold (dept_missing_step (columns dept)) (enumerate 0 (map snd (rows dept))) [])
       \<or> e \<in> set (dup_part L ''Department_ID'' ''Duplicate Key'' dept)
       \<or> e \<in> set (dup_part L ''Department_Name'' ''Duplicate Value'' dept)
       \<or> e \<in> set (doe_part L dept)"
    by (simp add: set_dept_report [OF ne])
  then show ?thesis
  proof (elim disjE)
    assume "e \<in> set (fold (dept_missing_step (columns dept)) (enumerate 0 (map snd (rows dept))) [])"
    from dept_missing_part_column [OF this] assms(2) show ?thesis by auto
  next
    assume "e \<in> set (dup_part L ''Department_ID'' ''Duplicate Key'' dept)"
    from dup_part_column [OF this] assms(2) show ?thesis by auto
  next
    assume "e \<in> set (dup_part L ''Department_Name'' ''Duplicate Value'' dept)"
    from dup_part_column [OF this] assms(2) show ?thesis by auto
  qed
qed

lemma dept_run_report:
  "\<exists>out. run_part2_etl L (cs, rs) emp_t stud_t perf_t = Inr out \<and>
         dept_report out = dept_report_of L (read_sql cs rs)"
  using run_part2_etl_eq [of L "(cs, rs)" emp_t stud_t "fst perf_t" "snd perf_t"] by simp

text \<open>
  C4, as stated, fails on a null year: \<^verbatim>\<open>int(None)\<close> raises, yet the guard
  \<^verbatim>\<open>pd.isna(v)\<close> comes first and the record is an Out-of-Range record; no Invalid Type
  record is made.
\<close>

theorem C4_counterexample:
  "py_int rt0 PNone = None \<and>
   dept_checks rt0 (read_sql [''DOE''] [[PNone]]) =
     Inr [mk_exc 0 ''DOE'' ''Missing'' ''null value'',
          mk_exc 0 ''DOE'' ''Out-of-Range'' ''DOE=None (must be >=1900)'']"
  by (simp add: dept_checks_eq dept_report_of_def dup_part_def doe_part_def items_read_sql
        dept_missing_step_def dept_missing_row_def doe_step_def)

text \<open>
  C4, amended. For a department row, the report has an Invalid Type record on
  \<^verbatim>\<open>DOE\<close> exactly when the year is not null and \<^verbatim>\<open>int\<close> raises on it, and an
  Out-of-Range record on \<^verbatim>\<open>DOE\<close> exactly when the year is null or converts to an
  integer below 1900.
\<close>

theorem C4_doe_rule:
  assumes "''DOE'' \<in> set cs" and "i < length rs"
  shows "\<exists>out.
     run_part2_etl L (cs, rs) emp_t stud_t perf_t = Inr out \<and>
     ((\<exists>e\<in>set (dept_report out).
         row_index e = i \<and> column e = ''DOE'' \<and> issue_type e = ''Invalid Type'') \<longleftrightarrow>
      \<not> pd_isna (rs ! i ! pos ''DOE'' cs) \<and> py_int L (rs ! i ! pos ''DOE'' cs) = None) \<and>
     ((\<exists>e\<in>set (dept_report out).
         row_index e = i \<and> column e = ''DOE'' \<and> issue_type e = ''Out-of-Range'') \<longleftrightarrow>
      pd_isna (rs ! i ! pos ''DOE'' cs) \<or>
      (\<exists>k. py_int L (rs ! i ! pos ''DOE'' cs) = Some k \<and> k < 1900))"
proof -
  let ?dept = "read_sql cs rs"
  let ?v = "rs ! i ! pos ''DOE'' cs"
  let ?rep = "dept_report_of L ?dept"
  from assms have ne: "\<not> df_empty ?dept" by auto
  have doe_sub: "set (doe_part L ?dept) \<subseteq> set ?rep"
    by (auto simp: set_dept_report [OF ne])
  have from_row: "e \<in> set (doe_step L (i, ?v) [])"
    if "e \<in> set ?rep" "row_index e = i"
       "issue_type e = ''Invalid Type'' \<or> issue_type e = ''Out-of-Range''" for e
  proof -
    from typed_record_from_doe [OF that(1,3)] obtain j where
      j: "j < length rs" "e \<in> set (doe_step L (j, rs ! j ! pos ''DOE'' cs) [])"
      by (auto simp: in_doe_part)
    from doe_step_record [OF j(2)] that(2) have "j = i" by simp
    with j(2) show ?thesis by simp
  qed
  have to_rep: "e \<in> set ?rep" if "e \<in> set (doe_step L (i, ?v) [])" for e
  proof -
    from that assms have "e \<in> set (doe_part L ?dept)"
      by (subst in_doe_part) blast
    with doe_sub show ?thesis by blast
  qed
  have inv: "(\<exists>e\<in>set ?rep. row_index e = i \<and> column e = ''DOE'' \<and>
                 issue_type e = ''Invalid Type'') \<longleftrightarrow>
             \<not> pd_isna ?v \<and> py_int L ?v = None"
  proof
    assume "\<exists>e\<in>set ?rep. row_index e = i \<and> column e = ''DOE'' \<and> issue_type e = ''Invalid Type''"
    then obtain e where e: "e \<in> set ?rep" "row_index e = i" "issue_type e = ''Invalid Type''"
      by blast
    from from_row [OF e(1,2)] e(3) have "e \<in> set (doe_step L (i, ?v) [])" by simp
    from doe_step_record [OF this] e(3) show "\<not> pd_isna ?v \<and> py_int L ?v = None"
      by (auto split: if_splits)
  next
    assume a: "\<not> pd_isna ?v \<and> py_int L ?v = None"
    let ?e = "mk_exc i ''DOE'' ''Invalid Type'' (''DOE='' @ py_str L ?v @ '' (not integer)'')"
    from a have "?e \<in> set (doe_step L (i, ?v) [])"
      by (simp add: doe_step_def)
    from to_rep [OF this]
    show "\<exists>e\<in>set ?rep. row_index e = i \<and> column e = ''DOE'' \<and> issue_type e = ''Invalid Type''"
      by (rule bexI [rotated]) (simp add: mk_exc_def)
  qed
  have oor: "(\<exists>e\<in>set ?rep. row_index e = i \<and> column e = ''DOE'' \<and>
                 issue_type e = ''Out-of-Range'') \<longleftrightarrow>
             pd_isna ?v \<or> (\<exists>k. py_int L ?v = Some k \<and> k < 1900)"
  proof
    assume "\<exists>e\<in>set ?rep. row_index e = i \<and> column e = ''DOE'' \<and> issue_type e = ''Out-of-Range''"
    then obtain e where e: "e \<in> set ?rep" "row_index e = i" "issue_type e = ''Out-of-Range''"
      by blast
    from from_row [OF e(1,2)] e(3) have m: "e \<in> set (doe_step L (i, ?v) [])" by simp
    then have "doe_step L (i, ?v) [] \<noteq> []" by auto
    then have "pd_isna ?v \<or> py_int L ?v = None \<or> (\<exists>k. py_int L ?v = Some k \<and> k < 1900)"
      by (simp add: doe_step_nonempty)
    moreover from doe_step_record [OF m] e(3) have "pd_isna ?v \<or> py_int L ?v \<noteq> None"
      by (auto split: if_splits)
    ultimately show "pd_isna ?v \<or> (\<exists>k. py_int L ?v = Some k \<and> k < 1900)" by auto
  next
    assume a: "pd_isna ?v \<or> (\<exists>k. py_int L ?v = Some k \<and> k < 1900)"
    let ?e = "mk_exc i ''DOE'' ''Out-of-Range'' (''DOE='' @ py_str L ?v @ '' (must be >=1900)'')"
    from a have "?e \<in> set (doe_step L (i, ?v) [])"
      by (auto simp: doe_step_def Let_def)
    from to_rep [OF this]
    show "\<exists>e\<in>set ?rep. row_index e = i \<and> column e = ''DOE'' \<and> issue_type e = ''Out-of-Range''"
      by (rule bexI [rotated]) (simp add: mk_exc_def)
  qed
  from dept_run_report [of L cs rs emp_t stud_t perf_t] obtain out where
    "run_part2_etl L (cs, rs) emp_t stud_t perf_t = Inr out" "dept_report out = ?rep"
    by blast
  with inv oor show ?thesis by auto
qed

lemma pos_dept_cols [simp]:
  "pos ''Department_ID'' dept_cols = 0" "pos ''Department_Name'' dept_cols = 1"
  "pos ''DOE'' dept_cols = 2"
  by (simp_all add: dept_cols_def)

lemma set_dept_cols [simp]:
  "''Department_ID'' \<in> set dept_cols" "''Department_Name'' \<in> set dept_cols"
  "''DOE'' \<in> set dept_cols" "dept_cols \<noteq> []"
  by (simp_all add: dept_cols_def)

theorem C4_witness:
  "''DOE'' \<in> set dept_cols \<and> 1 < length dept_null_doe \<and>
   pd_isna (dept_null_doe ! 1 ! pos ''DOE'' dept_cols) \<and>
   list_ex (\<lambda>e. row_index e = 1 \<and> column e = ''DOE'' \<and> issue_type e = ''Out-of-Range'')
     (dept_report (projr (run_part2_etl rt0 (dept_cols, dept_null_doe) ([], []) ([], []) ([], []))))"
proof -
  have h1: "''DOE'' \<in> set dept_cols" by simp
  have h2: "1 < length dept_null_doe" by (simp add: dept_null_doe_def)
  have h3: "pd_isna (dept_null_doe ! 1 ! pos ''DOE'' dept_cols)"
    by (simp add: dept_null_doe_def)
  from C4_doe_rule [OF h1 h2, of rt0 "([], [])" "([], [])" "([], [])"] h3
  obtain out where
    "run_part2_etl rt0 (dept_cols, dept_null_doe) ([], []) ([], []) ([], []) = Inr out"
    "\<exists>e\<in>set (dept_report out).
       row_index e = 1 \<and> column e = ''DOE'' \<and> issue_type e = ''Out-of-Range''"
    by auto
  then show ?thesis
    using h1 h2 h3 by (simp add: list_ex_iff)
qed

section \<open>Admissions and department keys\<close>

lemma in_stud_missing:
  "e \<in> set (fold (stud_missing_step L) (items (read_sql cs rs) c) []) \<longleftrightarrow>
     (\<exists>i<length rs. e \<in> set (stud_missing_step L (i, rs ! i ! pos c cs) []))"
  by (simp add: fold_stud_missing items_read_sql) force

lemma in_stud_fk:
  "e \<in> set (fold (stud_fk_step L ids) (items (read_sql cs rs) c) []) \<longleftrightarrow>
     (\<exists>i<length rs. e \<in> set (stud_fk_step L ids (i, rs ! i ! pos c cs) []))"
  by (simp add: fold_stud_fk items_read_sql) force

lemma stud_missing_step_record:
  "e \<in> set (stud_missing_step L rv []) \<longleftrightarrow>
     (pd_isna (snd rv) \<or> strip (py_str L (snd rv)) = []) \<and>
     e = mk_exc (fst rv) ''Department_Admission'' ''Missing'' ''Department_Admission is required''"
  by (auto simp: stud_missing_step_def)

lemma stud_fk_step_record:
  "e \<in> set (stud_fk_step L ids rv []) \<longleftrightarrow>
     strip (py_str L (snd rv)) \<noteq> [] \<and> ids \<noteq> {} \<and> strip (py_str L (snd rv)) \<notin> ids \<and>
     e = mk_exc (fst rv) ''Department_Admission'' ''FK Violation''
           (''Department_Admission='' @ strip (py_str L (snd rv)) @
            '' not in Department_Information.Department_ID'')"
  by (auto simp: stud_fk_step_def Let_def)

lemma set_stud_report:
  "''Department_Admission'' \<in> set cs \<Longrightarrow> rs \<noteq> [] \<Longrightarrow>
     set (stud_report_of L dept (read_sql cs rs)) =
       set (fold (stud_missing_step L) (items (read_sql cs rs) ''Department_Admission'') [])
       \<union> set (fold (stud_fk_step L (dept_id_set L dept))
                 (items (read_sql cs rs) ''Department_Admission'') [])"
  by (auto simp: stud_report_of_def)

lemma stud_missing_in_report:
  assumes "''Department_Admission'' \<in> set cs" and "i < length rs"
    and "pd_isna (rs ! i ! pos ''Department_Admission'' cs) \<or>
         strip (py_str L (rs ! i ! pos ''Department_Admission'' cs)) = []"
  shows "mk_exc i ''Department_Admission'' ''Missing'' ''Department_Admission is required''
           \<in> set (stud_report_of L dept (read_sql cs rs))"
proof -
  from assms(2) have ne: "rs \<noteq> []" by auto
  let ?e = "mk_exc i ''Department_Admission'' ''Missing'' ''Department_Admission is required''"
  from assms(3) have "?e \<in> set (stud_missing_step L (i, rs ! i ! pos ''Department_Admission'' cs) [])"
    by (simp add: stud_missing_step_record)
  with assms(2) have "?e \<in> set (fold (stud_missing_step L)
                                 (items (read_sql cs rs) ''Department_Admission'') [])"
    by (subst in_stud_missing) blast
  then show ?thesis
    by (simp add: set_stud_report [OF assms(1) ne])
qed

lemma stud_fk_in_report:
  assumes "''Department_Admission'' \<in> set cs" and "i < length rs"
    and "strip (py_str L (rs ! i ! pos ''Department_Admission'' cs)) \<noteq> []"
    and "dept_id_set L dept \<noteq> {}"
    and "strip (py_str L (rs ! i ! pos ''Department_Admission'' cs)) \<notin> dept_id_set L dept"
  shows "mk_exc i ''Department_Admission'' ''FK Violation''
           (''Department_Admission='' @ strip (py_str L (rs ! i ! pos ''Department_Admission'' cs)) @
            '' not in Department_Information.Department_ID'')
           \<in> set (stud_report_of L dept (read_sql cs rs))"
    (is "?e \<in> _")
proof -
  from assms(2) have ne: "rs \<noteq> []" by auto
  from assms(3,4,5) have "?e \<in> set (stud_fk_step L (dept_id_set L dept)
                                       (i, rs ! i ! pos ''Department_Admission'' cs) [])"
    by (simp add: stud_fk_step_record)
  with assms(2) have "?e \<in> set (fold (stud_fk_step L (dept_id_set L dept))
                                 (items (read_sql cs rs) ''Department_Admission'') [])"
    by (subst in_stud_fk) blast
  then show ?thesis
    by (simp add: set_stud_report [OF assms(1) ne])
qed

lemma stud_row_records:
  assumes "''Department_Admission'' \<in> set cs" and "i < length rs"
  shows "(\<exists>e\<in>set (stud_report_of L dept (read_sql cs rs)).
            row_index e = i \<and> issue_type e = ''Missing'') \<longleftrightarrow>
         pd_isna (rs ! i ! pos ''Department_Admission'' cs) \<or>
         strip (py_str L (rs ! i ! pos ''Department_Admission'' cs)) = []"
    (is "?M \<longleftrightarrow> ?m")
    and "(\<exists>e\<in>set (stud_report_of L dept (read_sql cs rs)).
            row_index e = i \<and> issue_type e = ''FK Violation'') \<longleftrightarrow>
         strip (py_str L (rs ! i ! pos ''Department_Admission'' cs)) \<noteq> [] \<and>
         dept_id_set L dept \<noteq> {} \<and>
         strip (py_str L (rs ! i ! pos ''Department_Admission'' cs)) \<notin> dept_id_set L dept"
    (is "?F \<longleftrightarrow> ?f")
proof -
  from assms(2) have ne: "rs \<noteq> []" by auto
  note s = set_stud_report [OF assms(1) ne]
  show "?M \<longleftrightarrow> ?m"
  proof
    assume ?M
    then show ?m
      by (auto simp: s in_stud_missing in_stud_fk stud_missing_step_record stud_fk_step_record
            mk_exc_def)
  next
    assume ?m
    from stud_missing_in_report [OF assms this, of dept] show ?M
      by (rule bexI [rotated]) (simp add: mk_exc_def)
  qed
  show "?F \<longleftrightarrow> ?f"
  proof
    assume ?F
    then show ?f
      by (auto simp: s in_stud_missing in_stud_fk stud_missing_step_record stud_fk_step_record
            mk_exc_def)
  next
    assume ?f
    then have "strip (py_str L (rs ! i ! pos ''Department_Admission'' cs)) \<noteq> []"
      "dept_id_set L dept \<noteq> {}"
      "strip (py_str L (rs ! i ! pos ''Department_Admission'' cs)) \<notin> dept_id_set L dept"
      by simp_all
    from stud_fk_in_report [OF assms this] show ?F
      by (rule bexI [rotated]) (simp add: mk_exc_def)
  qed
qed

lemma stud_run_report:
  "\<exists>out. run_part2_etl L dept_t emp_t (cs, rs) perf_t = Inr out \<and>
         stud_report out =
           stud_report_of L (read_sql (fst dept_t) (snd dept_t)) (read_sql cs rs)"
  using run_part2_etl_eq [of L dept_t emp_t "(cs, rs)" "fst perf_t" "snd perf_t"] by simp

lemma pos_stud_cols [simp]:
  "pos ''Student_ID'' stud_cols = 0" "pos ''Department_Admission'' stud_cols = 1"
  by (simp_all add: stud_cols_def)

lemma set_stud_cols [simp]:
  "''Student_ID'' \<in> set stud_cols" "''Department_Admission'' \<in> set stud_cols"
  by (simp_all add: stud_cols_def)

text \<open>
  C6. For a counseling row whose \<^verbatim>\<open>Department_Admission\<close> is a string, the report has a
  Missing record for the row exactly when the string strips to the empty string, and an
  FK Violation record exactly when the stripped string is not empty, the set of
  department keys is not empty and the stripped string is not in it. So the empty string
  gets the Missing record and no FK Violation record.
\<close>

theorem C6_string_admission:
  assumes "''Department_Admission'' \<in> set cs" and "i < length rs"
    and "rs ! i ! pos ''Department_Admission'' cs = PStr s"
  shows "\<exists>out ids.
     run_part2_etl L dept_t emp_t (cs, rs) perf_t = Inr out \<and>
     dept_ids L (read_sql (fst dept_t) (snd dept_t)) = Inr ids \<and>
     ((\<exists>e\<in>set (stud_report out). row_index e = i \<and> issue_type e = ''Missing'') \<longleftrightarrow>
        strip s = []) \<and>
     ((\<exists>e\<in>set (stud_report out). row_index e = i \<and> issue_type e = ''FK Violation'') \<longleftrightarrow>
        strip s \<noteq> [] \<and> ids \<noteq> {} \<and> strip s \<notin> ids) \<and>
     (s = [] \<longrightarrow>
        mk_exc i ''Department_Admission'' ''Missing'' ''Department_Admission is required''
          \<in> set (stud_report out) \<and>
        \<not> (\<exists>e\<in>set (stud_report out). row_index e = i \<and> issue_type e = ''FK Violation''))"
proof -
  let ?dept = "read_sql (fst dept_t) (snd dept_t)"
  let ?rep = "stud_report_of L ?dept (read_sql cs rs)"
  from stud_run_report [of L dept_t emp_t cs rs perf_t] obtain out where
    out: "run_part2_etl L dept_t emp_t (cs, rs) perf_t = Inr out" "stud_report out = ?rep"
    by blast
  have m: "(\<exists>e\<in>set ?rep. row_index e = i \<and> issue_type e = ''Missing'') \<longleftrightarrow> strip s = []"
    using stud_row_records(1) [OF assms(1,2), of L ?dept] by (simp add: assms(3))
  have f: "(\<exists>e\<in>set ?rep. row_index e = i \<and> issue_type e = ''FK Violation'') \<longleftrightarrow>
             strip s \<noteq> [] \<and> dept_id_set L ?dept \<noteq> {} \<and> strip s \<notin> dept_id_set L ?dept"
    using stud_row_records(2) [OF assms(1,2), of L ?dept] by (simp add: assms(3))
  have e: "mk_exc i ''Department_Admission'' ''Missing'' ''Department_Admission is required''
             \<in> set ?rep" if "s = []"
    using stud_missing_in_report [OF assms(1,2), of L ?dept] that
    by (simp add: assms(3) strip_def)
  have nf: "\<not> (\<exists>e\<in>set ?rep. row_index e = i \<and> issue_type e = ''FK Violation'')" if "s = []"
    using f that by (simp add: strip_def)
  show ?thesis
    apply (rule exI [of _ out])
    apply (rule exI [of _ "dept_id_set L ?dept"])
    apply (simp only: out dept_ids_eq m f)
    using e nf apply (simp add: strip_def)
    done
qed

theorem C6_witness:
  "''Department_Admission'' \<in> set stud_cols \<and> 0 < length scenario_d \<and>
   scenario_d ! 0 ! pos ''Department_Admission'' stud_cols = PStr '''' \<and>
   mk_exc 0 ''Department_Admission'' ''Missing'' ''Department_Admission is required''
     \<in> set (stud_report (projr (run_part2_etl rt0 dept_keys ([], []) (stud_cols, scenario_d) ([], [])))) \<and>
   \<not> list_ex (\<lambda>e. row_index e = 0 \<and> issue_type e = ''FK Violation'')
       (stud_report (projr (run_part2_etl rt0 dept_keys ([], []) (stud_cols, scenario_d) ([], []))))"
proof -
  have h1: "''Department_Admission'' \<in> set stud_cols" by simp
  have h2: "0 < length scenario_d" by (simp add: scenario_d_def)
  have h3: "scenario_d ! 0 ! pos ''Department_Admission'' stud_cols = PStr ''''"
    by (simp add: scenario_d_def)
  from C6_string_admission [OF h1 h2 h3, of rt0 dept_keys "([], [])" "([], [])"]
  obtain out where
    "run_part2_etl rt0 dept_keys ([], []) (stud_cols, scenario_d) ([], []) = Inr out"
    "mk_exc 0 ''Department_Admission'' ''Missing'' ''Department_Admission is required''
       \<in> set (stud_report out)"
    "\<not> (\<exists>e\<in>set (stud_report out). row_index e = 0 \<and> issue_type e = ''FK Violation'')"
    by auto
  then show ?thesis
    using h1 h2 h3 by (simp add: list_ex_iff)
qed

lemma strip_null_token:
  "pd_isna v \<Longrightarrow> strip (py_str L v) = py_str L v \<and> py_str L v \<noteq> [] \<and>
     (py_str L v = ''None'' \<or> py_str L v = ''nan'')"
  by (cases v rule: pd_isna.cases) (simp_all add: strip_def py_isspace_def)

text \<open>
  C9, as stated, fails when the null prints as a string that is a department key: with
  the key \<^verbatim>\<open>"nan"\<close> and a NaN admission the key set is not empty, and the report has
  the Missing record only.
\<close>

theorem C9_counterexample:
  "pd_isna (PFloat FNan) \<and>
   dept_ids rt0 (read_sql [''Department_ID''] [[PStr ''nan'']]) = Inr {''nan''} \<and>
   stud_checks rt0 (read_sql [''Department_ID''] [[PStr ''nan'']])
       (read_sql [''Department_Admission''] [[PFloat FNan]]) =
     Inr [mk_exc 0 ''Department_Admission'' ''Missing'' ''Department_Admission is required'']"
  by (simp add: dept_ids_eq dept_id_set_def stud_checks_eq stud_report_of_def items_read_sql
        stud_missing_step_def stud_fk_step_def strip_def py_isspace_def)

text \<open>
  C9, amended. A counseling row whose \<^verbatim>\<open>Department_Admission\<close> is null gets the
  Missing record. The null prints as \<^verbatim>\<open>None\<close> or \<^verbatim>\<open>nan\<close>, and the row gets an FK
  Violation record as well exactly when the set of department keys is not empty and does
  not hold that string.
\<close>

theorem C9_null_admission:
  assumes "''Department_Admission'' \<in> set cs" and "i < length rs"
    and "pd_isna (rs ! i ! pos ''Department_Admission'' cs)"
  shows "\<exists>out ids.
     run_part2_etl L dept_t emp_t (cs, rs) perf_t = Inr out \<and>
     dept_ids L (read_sql (fst dept_t) (snd dept_t)) = Inr ids \<and>
     mk_exc i ''Department_Admission'' ''Missing'' ''Department_Admission is required''
       \<in> set (stud_report out) \<and>
     (py_str L (rs ! i ! pos ''Department_Admission'' cs) = ''None'' \<or>
      py_str L (rs ! i ! pos ''Department_Admission'' cs) = ''nan'') \<and>
     ((\<exists>e\<in>set (stud_report out). row_index e = i \<and> issue_type e = ''FK Violation'') \<longleftrightarrow>
        ids \<noteq> {} \<and> py_str L (rs ! i ! pos ''Department_Admission'' cs) \<notin> ids) \<and>
     (ids \<noteq> {} \<and> py_str L (rs ! i ! pos ''Department_Admission'' cs) \<notin> ids \<longrightarrow>
        mk_exc i ''Department_Admission'' ''FK Violation''
          (''Department_Admission='' @ py_str L (rs ! i ! pos ''Department_Admission'' cs) @
           '' not in Department_Information.Department_ID'')
          \<in> set (stud_report out))"
proof -
  let ?dept = "read_sql (fst dept_t) (snd dept_t)"
  let ?rep = "stud_report_of L ?dept (read_sql cs rs)"
  let ?v = "rs ! i ! pos ''Department_Admission'' cs"
  note tok = strip_null_token [OF assms(3), of L]
  from stud_run_report [of L dept_t emp_t cs rs perf_t] obtain out where
    out: "run_part2_etl L dept_t emp_t (cs, rs) perf_t = Inr out" "stud_report out = ?rep"
    by blast
  have m: "mk_exc i ''Department_Admission'' ''Missing'' ''Department_Admission is required''
             \<in> set ?rep"
    using stud_missing_in_report [OF assms(1,2), of L ?dept] assms(3) by simp
  have f: "(\<exists>e\<in>set ?rep. row_index e = i \<and> issue_type e = ''FK Violation'') \<longleftrightarrow>
             dept_id_set L ?dept \<noteq> {} \<and> py_str L ?v \<notin> dept_id_set L ?dept"
    using stud_row_records(2) [OF assms(1,2), of L ?dept] tok by simp
  have r: "mk_exc i ''Department_Admission'' ''FK Violation''
             (''Department_Admission='' @ py_str L ?v @
              '' not in Department_Information.Department_ID'') \<in> set ?rep"
    if "dept_id_set L ?dept \<noteq> {}" "py_str L ?v \<notin> dept_id_set L ?dept"
    using stud_fk_in_report [OF assms(1,2), of L ?dept] that tok by simp
  show ?thesis
    apply (rule exI [of _ out])
    apply (rule exI [of _ "dept_id_set L ?dept"])
    apply (simp only: out dept_ids_eq f)
    using m r tok apply simp
    done
qed

theorem C9_witness:
  "''Department_Admission'' \<in> set stud_cols \<and> 0 < length null_admission \<and>
   pd_isna (null_admission ! 0 ! pos ''Department_Admission'' stud_cols) \<and>
   dept_ids rt0 (read_sql (fst dept_keys) (snd dept_keys)) = Inr {''CS'', ''EE''} \<and>
   mk_exc 0 ''Department_Admission'' ''Missing'' ''Department_Admission is required''
     \<in> set (stud_report (projr
           (run_part2_etl rt0 dept_keys ([], []) (stud_cols, null_admission) ([], [])))) \<and>
   mk_exc 0 ''Department_Admission'' ''FK Violation''
      ''Department_Admission=None not in Department_Information.Department_ID''
     \<in> set (stud_report (projr
           (run_part2_etl rt0 dept_keys ([], []) (stud_cols, null_admission) ([], []))))"
proof -
  have h1: "''Department_Admission'' \<in> set stud_cols" by simp
  have h2: "0 < length null_admission" by (simp add: null_admission_def)
  have h3: "pd_isna (null_admission ! 0 ! pos ''Department_Admission'' stud_cols)"
    by (simp add: null_admission_def)
  have ids: "dept_ids rt0 (read_sql (fst dept_keys) (snd dept_keys)) = Inr {''CS'', ''EE''}"
    by (simp add: dept_ids_eq dept_id_set_def dept_keys_def items_read_sql upt_2)
  have v: "null_admission ! 0 ! pos ''Department_Admission'' stud_cols = PNone"
    by (simp add: null_admission_def)
  from C9_null_admission [OF h1 h2 h3, of rt0 dept_keys "([], [])" "([], [])"]
  obtain out ids' where
    o: "run_part2_etl rt0 dept_keys ([], []) (stud_cols, null_admission) ([], []) = Inr out" and
    i': "dept_ids rt0 (read_sql (fst dept_keys) (snd dept_keys)) = Inr ids'" and
    m: "mk_exc 0 ''Department_Admission'' ''Missing'' ''Department_Admission is required''
          \<in> set (stud_report out)" and
    f: "ids' \<noteq> {} \<and> py_str rt0 (null_admission ! 0 ! pos ''Department_Admission'' stud_cols) \<notin> ids' \<longrightarrow>
        mk_exc 0 ''Department_Admission'' ''FK Violation''
          (''Department_Admission='' @
           py_str rt0 (null_admission ! 0 ! pos ''Department_Admission'' stud_cols) @
           '' not in Department_Information.Department_ID'')
          \<in> set (stud_report out)"
    by blast
  from i' ids have "ids' = {''CS'', ''EE''}" by simp
  with f v have "mk_exc 0 ''Department_Admission'' ''FK Violation''
      ''Department_Admission=None not in Department_Information.Department_ID''
        \<in> set (stud_report out)"
    by simp
  with o m ids h1 h2 h3 show ?thesis by simp
qed

section \<open>Absent columns\<close>

lemma doe_part_column:
  "e \<in> set (doe_part L df) \<Longrightarrow>
     column e = ''DOE'' \<and> ''DOE'' \<in> set (columns df) \<and>
     (issue_type e = ''Out-of-Range'' \<or> issue_type e = ''Invalid Type'')"
  by (auto simp: doe_part_def fold_doe split: if_splits dest!: doe_step_record)

lemma dept_report_columns:
  assumes "e \<in> set (dept_report_of L dept)"
  shows "(issue_type e = ''Missing'' \<and> column e \<in> set (columns dept))
       \<or> (column e = ''Department_ID'' \<and> issue_type e = ''Duplicate Key'' \<and>
          ''Department_ID'' \<in> set (columns dept))
       \<or> (column e = ''Department_Name'' \<and> issue_type e = ''Duplicate Value'' \<and>
          ''Department_Name'' \<in> set (columns dept))
       \<or> (column e = ''DOE'' \<and> ''DOE'' \<in> set (columns dept) \<and>
          (issue_type e = ''Out-of-Range'' \<or> issue_type e = ''Invalid Type''))"
proof -
  from assms have ne: "\<not> df_empty dept"
    by (auto simp: dept_report_of_def split: if_splits)
  from assms have "e \<in> set (fold (dept_missing_step (columns dept)) (enumerate 0 (map snd (rows dept))) [])
       \<or> e \<in> set (dup_part L ''Department_ID'' ''Duplicate Key'' dept)
       \<or> e \<in> set (dup_part L ''Department_Name'' ''Duplicate Value'' dept)
       \<or> e \<in> set (doe_part L dept)"
    by (simp add: set_dept_report [OF ne])
  then show ?thesis
  proof (elim disjE)
    assume "e \<in> set (fold (dept_missing_step (columns dept)) (enumerate 0 (map snd (rows dept))) [])"
    from dept_missing_part_column [OF this] show ?thesis by simp
  next
    assume "e \<in> set (dup_part L ''Department_ID'' ''Duplicate Key'' dept)"
    from dup_part_column [OF this] show ?thesis by simp
  next
    assume "e \<in> set (dup_part L ''Department_Name'' ''Duplicate Value'' dept)"
    from dup_part_column [OF this] show ?thesis by simp
  next
    assume "e \<in> set (doe_part L dept)"
    from doe_part_column [OF this] show ?thesis by simp
  qed
qed

lemma marks_part_absent: "''Marks'' \<notin> set (columns perf) \<Longrightarrow> perf_ex (marks_part L perf) = []"
  by (simp add: marks_part_def)

lemma effort_part_absent:
  "''Effort_Hours'' \<notin> set (columns perf) \<Longrightarrow> perf_ex (effort_part L perf) = []"
  by (simp add: effort_part_def)

lemma pair_part_absent:
  "\<not> {''Student_ID'', ''Paper_ID''} \<subseteq> set (columns perf) \<Longrightarrow> pair_part L perf = []"
  by (auto simp: pair_part_def)

lemma perf_report_columns:
  assumes "e \<in> set (perf_ex (perf_state L perf))"
  shows "(column e = ''(row)'' \<and> issue_type e = ''Missing'')
       \<or> (column e = ''Marks'' \<and> ''Marks'' \<in> set (columns perf) \<and>
          issue_type e \<in> {''Invalid Type'', ''Out-of-Range''})
       \<or> (column e = ''Effort_Hours'' \<and> ''Effort_Hours'' \<in> set (columns perf) \<and>
          issue_type e \<in> {''Invalid Type'', ''Out-of-Range''})
       \<or> (column e = ''Student_ID,Paper_ID'' \<and> issue_type e = ''Duplicate Pair'' \<and>
          {''Student_ID'', ''Paper_ID''} \<subseteq> set (columns perf))"
proof -
  from assms have ne: "\<not> df_empty perf"
    by (auto simp: perf_state_def split: if_splits)
  from assms have "e \<in> (\<lambda>r. mk_exc r ''(row)'' ''Missing'' ''Missing values in row'') ` set (miss_rows perf)
       \<or> e \<in> set (perf_ex (marks_part L perf)) \<or> e \<in> set (perf_ex (effort_part L perf))
       \<or> e \<in> set (pair_part L perf)"
    by (simp add: set_perf_report [OF ne])
  then show ?thesis
  proof (elim disjE)
    assume "e \<in> (\<lambda>r. mk_exc r ''(row)'' ''Missing'' ''Missing values in row'') ` set (miss_rows perf)"
    then show ?thesis by (auto simp: mk_exc_def)
  next
    assume a: "e \<in> set (perf_ex (marks_part L perf))"
    have "''Marks'' \<in> set (columns perf)"
    proof (rule ccontr)
      assume "\<not> ''Marks'' \<in> set (columns perf)"
      from marks_part_absent [OF this, of L] a show False by simp
    qed
    with marks_part_column [OF a] show ?thesis by simp
  next
    assume a: "e \<in> set (perf_ex (effort_part L perf))"
    have "''Effort_Hours'' \<in> set (columns perf)"
    proof (rule ccontr)
      assume "\<not> ''Effort_Hours'' \<in> set (columns perf)"
      from effort_part_absent [OF this, of L] a show False by simp
    qed
    with effort_part_column [OF a] show ?thesis by simp
  next
    assume a: "e \<in> set (pair_part L perf)"
    have "{''Student_ID'', ''Paper_ID''} \<subseteq> set (columns perf)"
    proof (rule ccontr)
      assume "\<not> {''Student_ID'', ''Paper_ID''} \<subseteq> set (columns perf)"
      from pair_part_absent [OF this, of L] a show False by simp
    qed
    with pair_part_column [OF a] show ?thesis by simp
  qed
qed

text \<open>
  Up to the cleaned frame no exception is raised, whatever columns the frames have: every
  access to a column is behind a test that the frame has it. A rule whose column is not
  in the frame leaves no record: without \<^verbatim>\<open>Department_ID\<close>,
  \<^verbatim>\<open>Department_Name\<close> or \<^verbatim>\<open>DOE\<close> the department report has no record on that
  column and none of the rule's issue types; without \<^verbatim>\<open>Department_Admission\<close> the
  counseling report is empty; without \<^verbatim>\<open>Marks\<close>, \<^verbatim>\<open>Effort_Hours\<close> or one of the two
  key columns the performance report has no record on that column, and no Duplicate Pair
  record.
\<close>

lemma skipped_rules_leave_no_records:
  "\<exists>out.
     run_part2_etl L dept_t emp_t stud_t perf_t = Inr out \<and>
     (''Department_ID'' \<notin> set (fst dept_t) \<longrightarrow>
        (\<forall>e\<in>set (dept_report out).
           column e \<noteq> ''Department_ID'' \<and> issue_type e \<noteq> ''Duplicate Key'')) \<and>
     (''Department_Name'' \<notin> set (fst dept_t) \<longrightarrow>
        (\<forall>e\<in>set (dept_report out).
           column e \<noteq> ''Department_Name'' \<and> issue_type e \<noteq> ''Duplicate Value'')) \<and>
     (''DOE'' \<notin> set (fst dept_t) \<longrightarrow>
        (\<forall>e\<in>set (dept_report out).
           column e \<noteq> ''DOE'' \<and> issue_type e \<noteq> ''Out-of-Range'' \<and>
           issue_type e \<noteq> ''Invalid Type'')) \<and>
     (''Department_Admission'' \<notin> set (fst stud_t) \<longrightarrow> stud_report out = []) \<and>
     (''Marks'' \<notin> set (fst perf_t) \<longrightarrow>
        (\<forall>e\<in>set (perf_report out). column e \<noteq> ''Marks'')) \<and>
     (''Effort_Hours'' \<notin> set (fst perf_t) \<longrightarrow>
        (\<forall>e\<in>set (perf_report out). column e \<noteq> ''Effort_Hours'')) \<and>
     (\<not> {''Student_ID'', ''Paper_ID''} \<subseteq> set (fst perf_t) \<longrightarrow>
        (\<forall>e\<in>set (perf_report out).
           column e \<noteq> ''Student_ID,Paper_ID'' \<and> issue_type e \<noteq> ''Duplicate Pair''))"
proof -
  let ?dept = "read_sql (fst dept_t) (snd dept_t)"
  let ?stud = "read_sql (fst stud_t) (snd stud_t)"
  let ?perf = "read_sql (fst perf_t) (snd perf_t)"
  have d1: "column e \<noteq> ''Department_ID'' \<and> issue_type e \<noteq> ''Duplicate Key''"
    if "''Department_ID'' \<notin> set (fst dept_t)" "e \<in> set (dept_report_of L ?dept)" for e
    using dept_report_columns [OF that(2)] that(1) by auto
  have d2: "column e \<noteq> ''Department_Name'' \<and> issue_type e \<noteq> ''Duplicate Value''"
    if "''Department_Name'' \<notin> set (fst dept_t)" "e \<in> set (dept_report_of L ?dept)" for e
    using dept_report_columns [OF that(2)] that(1) by auto
  have d3: "column e \<noteq> ''DOE'' \<and> issue_type e \<noteq> ''Out-of-Range'' \<and>
            issue_type e \<noteq> ''Invalid Type''"
    if "''DOE'' \<notin> set (fst dept_t)" "e \<in> set (dept_report_of L ?dept)" for e
    using dept_report_columns [OF that(2)] that(1) by auto
  have s: "stud_report_of L ?dept ?stud = []"
    if "''Department_Admission'' \<notin> set (fst stud_t)"
    using that by (simp add: stud_report_of_def)
  have p1: "column e \<noteq> ''Marks''"
    if "''Marks'' \<notin> set (fst perf_t)" "e \<in> set (perf_ex (perf_state L ?perf))" for e
    using perf_report_columns [OF that(2)] that(1) by auto
  have p2: "column e \<noteq> ''Effort_Hours''"
    if "''Effort_Hours'' \<notin> set (fst perf_t)" "e \<in> set (perf_ex (perf_state L ?perf))" for e
    using perf_report_columns [OF that(2)] that(1) by auto
  have p3: "column e \<noteq> ''Student_ID,Paper_ID'' \<and> issue_type e \<noteq> ''Duplicate Pair''"
    if "\<not> {''Student_ID'', ''Paper_ID''} \<subseteq> set (fst perf_t)"
       "e \<in> set (perf_ex (perf_state L ?perf))" for e
    using perf_report_columns [OF that(2)] that(1) by auto
  from run_part2_etl_eq [of L dept_t emp_t stud_t "fst perf_t" "snd perf_t"]
  obtain out where out: "run_part2_etl L dept_t emp_t stud_t perf_t = Inr out"
    "dept_report out = dept_report_of L ?dept" "stud_report out = stud_report_of L ?dept ?stud"
    "perf_report out = perf_ex (perf_state L ?perf)"
    by simp
  show ?thesis
    apply (rule exI [of _ out])
    apply (simp only: out)
    apply (intro conjI impI ballI)
             apply (rule refl)
            apply (simp add: d1)
           apply (simp add: d1)
          apply (simp add: d2)
         apply (simp add: d2)
        apply (simp add: d3)
       apply (simp add: d3)
      apply (simp add: d3)
     apply (simp add: s)
    using p1 p2 p3 apply blast+
    done
qed

lemma summary_eq:
  "summary out =
     (if dept_report out = [] \<or> stud_report out = [] \<or> perf_report out = []
      then Inl EmptyDataError
      else Inr [(''Department_Information'', length (dept_report out)),
                (''Employee_Information'', 0),
                (''Student_Counceling_Information'', length (stud_report out)),
                (''Student_Performance_Data'', length (perf_report out))])"
  by (simp add: summary_def read_csv_len_def to_csv_records_def to_csv_employee_def
        exc_columns_def)

lemma upt_1: "[0..<1] = [0]"
  by (simp add: upt_rec)

lemma dept_report_without_doe:
  "dept_report_of rt0 (read_sql (fst dept_without_doe) (snd dept_without_doe)) = []"
  by (simp add: dept_without_doe_def dept_report_of_def dup_part_def doe_part_def
        items_read_sql dept_missing_step_def dept_missing_row_def marked_def duplicated_def)

lemma dept_report_with_doe:
  "map issue_type (dept_report_of rt0 (read_sql (fst dept_with_doe) (snd dept_with_doe))) =
     [''Out-of-Range'']"
  by (simp add: dept_with_doe_def dept_report_of_def dup_part_def doe_part_def
        items_read_sql dept_missing_step_def dept_missing_row_def marked_def duplicated_def
        doe_step_def mk_exc_def)

lemma stud_report_scenario_d:
  "map issue_type (stud_report_of rt0 dept (read_sql stud_cols scenario_d)) = [''Missing'']"
  by (simp add: stud_report_of_def scenario_d_def stud_cols_def items_read_sql stud_missing_step_def
        stud_fk_step_def strip_def mk_exc_def)

lemma perf_report_scenario_c:
  "map issue_type (perf_ex (perf_state rt0 (read_sql perf_cols scenario_c))) = [''Invalid Type'']"
  by (simp add: perf_state_def miss_rows_read_sql marks_part_def effort_part_def pair_part_def
        items_read_sql pair_items_read_sql marks_step_def effort_step_def scenario_c_def
        marked_def duplicated_def mk_exc_def)

lemma length_one: "map f xs = [y] \<Longrightarrow> length xs = 1 \<and> xs \<noteq> []"
  by auto

text \<open>
  C8. The claim does not hold of the run as a whole. A rule that is skipped for an absent
  column can leave its report empty, and the summary then raises \<^verbatim>\<open>EmptyDataError\<close> on
  reading the report back. With the department of year 1800 the run ends and the summary
  counts one record in each of the three reports; with the same department and no
  \<^verbatim>\<open>DOE\<close> column, the other tables unchanged, the run ends in the error.
\<close>

theorem C8_skipped_rule_run_raises:
  "run_part2_etl_to_end rt0 dept_without_doe ([], []) (stud_cols, scenario_d)
       (perf_cols, scenario_c) = Inl EmptyDataError
   \<and> map_sum id snd
         (run_part2_etl_to_end rt0 dept_with_doe ([], []) (stud_cols, scenario_d)
            (perf_cols, scenario_c)) =
       Inr [(''Department_Information'', 1), (''Employee_Information'', 0),
            (''Student_Counceling_Information'', 1), (''Student_Performance_Data'', 1)]"
proof -
  note d = length_one [OF dept_report_with_doe]
  note s = length_one [OF stud_report_scenario_d]
  note p = length_one [OF perf_report_scenario_c]
  show ?thesis
    by (simp add: run_part2_etl_to_end_def run_part2_etl_eq summary_eq
          dept_report_without_doe d s p)
qed

end
